theory Spec2Isabelle
  imports Complex_Main "HOL-Library.Word" "HOL-Library.Signed_Division" "HOL-Library.Multiset"
begin

section \<open>The adaptive packetizer (proofplayer/src/TAdaptivePacketizer.cxx)\<close>

text \<open>
  Conventions of the embedding.
  \<^item> \<open>Long64_t\<close> and \<open>Int_t\<close> values are \<open>int\<close>. Signed overflow is undefined in C++
    and is not modelled; the one narrowing conversion of the source that can lose
    bits (\<open>Long64_t\<close> to \<open>Int_t\<close>) is written out as \<open>to_Int_t\<close>.
  \<^item> Integer division of the source truncates towards zero: \<open>sdiv\<close>.
  \<^item> A C++ object reached through a pointer lives in a store (a list), and the
    pointer is its index; a null pointer is \<open>None\<close>.
  \<^item> A function of the source that can abort (a failed \<open>R__ASSERT\<close>, a null
    dereference, an integer division by zero) returns an \<open>option\<close>: \<open>None\<close> is the
    abort.
  \<^item> \<open>Float_t\<close> and \<open>Double_t\<close> values have an abstract type \<open>'f\<close>; their
    operations are the fields of a record \<open>'f floatops\<close> that every function
    computing with them takes as its first argument. Theorems stated for an
    arbitrary \<open>F\<close> hold whatever the floating-point arithmetic does.
\<close>

subsection \<open>Integers, floating point, lists\<close>

definition to_Int_t :: "int \<Rightarrow> int" where
  "to_Int_t n = sint (word_of_int n :: 32 word)"

record 'f floatops =
  f_of_int :: "int \<Rightarrow> 'f"
  f_to_Long64 :: "'f \<Rightarrow> int"
  f_add :: "'f \<Rightarrow> 'f \<Rightarrow> 'f"
  f_sub :: "'f \<Rightarrow> 'f \<Rightarrow> 'f"
  f_mul :: "'f \<Rightarrow> 'f \<Rightarrow> 'f"
  f_div :: "'f \<Rightarrow> 'f \<Rightarrow> 'f"
  f_less :: "'f \<Rightarrow> 'f \<Rightarrow> bool"
  f_is_zero :: "'f \<Rightarrow> bool"
  f_0_4 :: "'f"

text \<open>
  Exact rational arithmetic as one instance of the floating-point operations; the
  conversion to \<open>Long64_t\<close> truncates towards zero. It agrees with IEEE arithmetic
  wherever every intermediate value is representable and no divisor is zero.
\<close>

definition exact_ops :: "rat floatops" where
  "exact_ops = \<lparr> f_of_int = of_int,
                 f_to_Long64 = (\<lambda>x. if 0 \<le> x then \<lfloor>x\<rfloor> else - \<lfloor>- x\<rfloor>),
                 f_add = (+), f_sub = (-), f_mul = (*), f_div = (/),
                 f_less = (<), f_is_zero = (\<lambda>x. x = 0), f_0_4 = 2 / 5 \<rparr>"

text \<open>
  Modelled from the spec: the list class \<open>TList\<close> is not under src/. The model takes
  its interface as the packetizer uses it: \<open>Add\<close> appends, \<open>First\<close> is the head or
  null, \<open>After\<close> is the element following a given one or null, \<open>Remove\<close> takes out
  the first occurrence.
\<close>

definition nth_opt :: "'a list \<Rightarrow> nat \<Rightarrow> 'a option" where
  "nth_opt xs i = (if i < length xs then Some (xs ! i) else None)"

definition First :: "nat list \<Rightarrow> nat option" where
  "First xs = (case xs of [] \<Rightarrow> None | x # _ \<Rightarrow> Some x)"

definition After :: "nat list \<Rightarrow> nat \<Rightarrow> nat option" where
  "After xs x = (case dropWhile (\<lambda>y. y \<noteq> x) xs of
                   [] \<Rightarrow> None
                 | _ # ys \<Rightarrow> First ys)"

subsection \<open>TDSetElement, TFileStat, TFileNode, TSlaveStat\<close>

text \<open>
  A file name is kept in the parsed form that \<open>TUrl\<close> (not under src/) gives the
  constructor: validity, protocol and host.
\<close>

record TUrl =
  urlValid :: bool
  urlProtocol :: string
  urlHost :: string

datatype TObjectList = EntryList int | EventList int | OtherObject

record TDSetElement =
  fName :: TUrl
  fTitle :: string
  fFirst :: int
  fNum :: int
  fTDSetOffset :: int
  fEntryList :: "TObjectList option"
  el_fValid :: bool

text \<open>
  A packet is the element that \<open>CreateNewPacket\<close> returns: it names the file,
  object and directory of its base element (here: the base element's index) and
  carries the sub-range.
\<close>

record packet =
  pBase :: nat
  pFirst :: int
  pNum :: int
  pEntryList :: "TObjectList option"

record TFileStat =
  fIsDone :: bool
  fNode :: nat
  fElement :: nat
  fNextEntry :: int

record TFileNode =
  fNodeName :: string
  fFiles :: "nat list"
  fUnAllocFileNext :: "nat option"
  fActFiles :: "nat list"
  fActFileNext :: "nat option"
  fMySlaveCnt :: int
  fExtSlaveCnt :: int
  fRunSlaveCnt :: int
  fn_fProcessed :: int
  fEvents :: int

record TSlave =
  slName :: string
  slPerfIdx :: int

record 'f TSlaveStat =
  fSlave :: TSlave
  fFileNode :: "nat option"
  fCurFile :: "nat option"
  fCurElem :: "packet option"
  sl_fProcessed :: int
  fProcTime :: 'f
  fCurProcessed :: int
  fCurProcTime :: 'f

subsection \<open>TFileNode: counters and Compare\<close>

definition GetSlaveCnt :: "TFileNode \<Rightarrow> int" where
  "GetSlaveCnt n = fMySlaveCnt n + fExtSlaveCnt n"

definition GetEventsLeftPerSlave :: "TFileNode \<Rightarrow> int option" where
  "GetEventsLeftPerSlave n =
     (if fRunSlaveCnt n + 1 = 0 then None
      else Some ((fEvents n - fn_fProcessed n) sdiv (fRunSlaveCnt n + 1)))"

text \<open>
  \<open>Compare\<close> reads the two static members \<open>fgNetworkFasterThanHD\<close> and
  \<open>fgMaxSlaveCnt\<close>; they are its first two arguments.
\<close>

definition Compare_HD :: "int \<Rightarrow> TFileNode \<Rightarrow> TFileNode \<Rightarrow> int \<Rightarrow> int \<Rightarrow> int" where
  "Compare_HD fgMaxSlaveCnt this obj myLeft otherLeft =
     (let diffEvents = myLeft - otherLeft;
          myExtSlaves = fExtSlaveCnt this;
          otherExtSlaves = fExtSlaveCnt obj;
          avEventsLeft = (myLeft + otherLeft) sdiv 2;
          mySlavesProcRemote = GetSlaveCnt this - fRunSlaveCnt this;
          otherSlavesProcRemote = GetSlaveCnt obj - fRunSlaveCnt obj
      in
      if mySlavesProcRemote < otherSlavesProcRemote then
        (if diffEvents < - (avEventsLeft sdiv 2) \<and> fExtSlaveCnt obj < fgMaxSlaveCnt
         then 1 else - 1)
      else if mySlavesProcRemote > otherSlavesProcRemote then
        (if diffEvents > avEventsLeft sdiv 2 \<and> fExtSlaveCnt this < fgMaxSlaveCnt
         then - 1 else 1)
      else if myExtSlaves < otherExtSlaves then
        (if diffEvents < - (avEventsLeft sdiv 3) \<and> fExtSlaveCnt obj < fgMaxSlaveCnt
         then 1 else - 1)
      else if myExtSlaves > otherExtSlaves then
        (if diffEvents > avEventsLeft sdiv 3 \<and> fExtSlaveCnt this < fgMaxSlaveCnt
         then - 1 else 1)
      else
        (let myOwnSlaves = fMySlaveCnt this;
             otherOwnSlaves = fMySlaveCnt obj
         in
         if myOwnSlaves < otherOwnSlaves then
           (if diffEvents < - (avEventsLeft sdiv 3) \<and> fExtSlaveCnt obj < fgMaxSlaveCnt
            then 1 else - 1)
         else if myOwnSlaves > otherOwnSlaves then
           (if diffEvents > avEventsLeft sdiv 3 \<and> fExtSlaveCnt this < fgMaxSlaveCnt
            then - 1 else 1)
         else if diffEvents > 0 then - 1
         else if diffEvents < 0 then 1
         else 0))"

definition Compare :: "int \<Rightarrow> int \<Rightarrow> TFileNode \<Rightarrow> TFileNode \<Rightarrow> int option" where
  "Compare fgNetworkFasterThanHD fgMaxSlaveCnt this obj =
     (if fgNetworkFasterThanHD \<noteq> 0 then
        (let myVal = fRunSlaveCnt this;
             otherVal = fRunSlaveCnt obj
         in
         if myVal < otherVal then Some (- 1)
         else if myVal > otherVal then Some 1
         else if fEvents this - fn_fProcessed this > fEvents obj - fn_fProcessed obj
         then Some (- 1)
         else Some 1)
      else
        (case GetEventsLeftPerSlave this of
           None \<Rightarrow> None
         | Some myLeft \<Rightarrow>
             (case GetEventsLeftPerSlave obj of
                None \<Rightarrow> None
              | Some otherLeft \<Rightarrow>
                  Some (Compare_HD fgMaxSlaveCnt this obj myLeft otherLeft))))"

subsection \<open>TFileNode: the cursors over its files\<close>

definition TFileNode_GetNextUnAlloc :: "TFileNode \<Rightarrow> TFileNode \<times> nat option" where
  "TFileNode_GetNextUnAlloc n =
     (case fUnAllocFileNext n of
        None \<Rightarrow> (n, None)
      | Some nxt \<Rightarrow>
          (let n1 = n\<lparr>fActFiles := fActFiles n @ [nxt]\<rparr>;
               n2 = (if fActFileNext n1 = None
                     then n1\<lparr>fActFileNext := First (fActFiles n1)\<rparr> else n1);
               n3 = n2\<lparr>fUnAllocFileNext := After (fFiles n2) nxt\<rparr>
           in (n3, Some nxt)))"

definition TFileNode_GetNextActive :: "TFileNode \<Rightarrow> TFileNode \<times> nat option" where
  "TFileNode_GetNextActive n =
     (case fActFileNext n of
        None \<Rightarrow> (n, None)
      | Some nxt \<Rightarrow>
          (let n1 = n\<lparr>fActFileNext := After (fActFiles n) nxt\<rparr>;
               n2 = (if fActFileNext n1 = None
                     then n1\<lparr>fActFileNext := First (fActFiles n1)\<rparr> else n1)
           in (n2, Some nxt)))"

definition TFileNode_RemoveActive :: "TFileNode \<Rightarrow> nat \<Rightarrow> TFileNode" where
  "TFileNode_RemoveActive n file =
     (let n1 = (if fActFileNext n = Some file
                then n\<lparr>fActFileNext := After (fActFiles n) file\<rparr> else n);
          n2 = n1\<lparr>fActFiles := remove1 file (fActFiles n1)\<rparr>
      in if fActFileNext n2 = None
         then n2\<lparr>fActFileNext := First (fActFiles n2)\<rparr> else n2)"

definition IncExtSlaveCnt :: "TFileNode \<Rightarrow> string \<Rightarrow> TFileNode" where
  "IncExtSlaveCnt n slave =
     (if fNodeName n \<noteq> slave then n\<lparr>fExtSlaveCnt := fExtSlaveCnt n + 1\<rparr> else n)"

definition DecExtSlaveCnt :: "TFileNode \<Rightarrow> string \<Rightarrow> TFileNode option" where
  "DecExtSlaveCnt n slave =
     (let n1 = (if fNodeName n \<noteq> slave
                then n\<lparr>fExtSlaveCnt := fExtSlaveCnt n - 1\<rparr> else n)
      in if fExtSlaveCnt n1 \<ge> 0 then Some n1 else None)"

definition IncRunSlaveCnt :: "TFileNode \<Rightarrow> TFileNode" where
  "IncRunSlaveCnt n = n\<lparr>fRunSlaveCnt := fRunSlaveCnt n + 1\<rparr>"

definition DecRunSlaveCnt :: "TFileNode \<Rightarrow> TFileNode option" where
  "DecRunSlaveCnt n =
     (let n1 = n\<lparr>fRunSlaveCnt := fRunSlaveCnt n - 1\<rparr>
      in if fRunSlaveCnt n1 \<ge> 0 then Some n1 else None)"

definition IncProcessed :: "TFileNode \<Rightarrow> int \<Rightarrow> TFileNode" where
  "IncProcessed n nEvents = n\<lparr>fn_fProcessed := fn_fProcessed n + nEvents\<rparr>"

subsection \<open>The packetizer's state\<close>

text \<open>
  \<open>fFileNodes\<close> is both the list of nodes and their store; \<open>fFileStats\<close> and
  \<open>fElements\<close> are the stores of the \<open>TFileStat\<close> and \<open>TDSetElement\<close>
  objects; \<open>fSlaveStats\<close> maps a worker (its index) to its \<open>TSlaveStat\<close>. The two
  static members of the class are fields of the state. The progress timer and the
  performance-statistics sink (\<open>HandleTimer\<close>, \<open>gPerfStats\<close>) are left out: they
  read the state and never write it.
\<close>

record 'f packetizer =
  fValid :: bool
  fStop :: bool
  fProcessed :: int
  fTotalEntries :: int
  fBytesRead :: int
  fNEventsOnRemLoc :: int
  fCumProcTime :: 'f
  fBaseLocalPreference :: 'f
  fFractionOfRemoteFiles :: 'f
  fMaxPerfIdx :: int
  fgMaxSlaveCnt :: int
  fgNetworkFasterThanHD :: int
  fFileNodes :: "TFileNode list"
  fFileStats :: "TFileStat list"
  fElements :: "TDSetElement list"
  fUnAllocated :: "nat list"
  fActive :: "nat list"
  fSlaveStats :: "'f TSlaveStat list"
  fPackets :: "packet list"

text \<open>
  Modelled from the spec: \<open>TList::Sort\<close> is not under src/. The spec has the
  scheduler sort the nodes by \<open>Compare\<close>, the smallest first; the model is an
  insertion sort that puts an element before the first one it does not exceed.
\<close>

fun insert_sorted :: "(nat \<Rightarrow> nat \<Rightarrow> int option) \<Rightarrow> nat \<Rightarrow> nat list \<Rightarrow> nat list option" where
  "insert_sorted cmp x [] = Some [x]"
| "insert_sorted cmp x (y # ys) =
     (case cmp x y of
        None \<Rightarrow> None
      | Some c \<Rightarrow>
          if c \<le> 0 then Some (x # y # ys)
          else (case insert_sorted cmp x ys of
                  None \<Rightarrow> None
                | Some zs \<Rightarrow> Some (y # zs)))"

fun Sort :: "(nat \<Rightarrow> nat \<Rightarrow> int option) \<Rightarrow> nat list \<Rightarrow> nat list option" where
  "Sort cmp [] = Some []"
| "Sort cmp (x # xs) =
     (case Sort cmp xs of
        None \<Rightarrow> None
      | Some ys \<Rightarrow> insert_sorted cmp x ys)"

definition node_Compare :: "'f packetizer \<Rightarrow> nat \<Rightarrow> nat \<Rightarrow> int option" where
  "node_Compare s a b =
     (case nth_opt (fFileNodes s) a of
        None \<Rightarrow> None
      | Some this \<Rightarrow>
          (case nth_opt (fFileNodes s) b of
             None \<Rightarrow> None
           | Some obj \<Rightarrow> Compare (fgNetworkFasterThanHD s) (fgMaxSlaveCnt s) this obj))"

definition RemoveUnAllocNode :: "'f packetizer \<Rightarrow> nat \<Rightarrow> 'f packetizer" where
  "RemoveUnAllocNode s node = s\<lparr>fUnAllocated := remove1 node (fUnAllocated s)\<rparr>"

definition RemoveActiveNode :: "'f packetizer \<Rightarrow> nat \<Rightarrow> 'f packetizer" where
  "RemoveActiveNode s node = s\<lparr>fActive := remove1 node (fActive s)\<rparr>"

definition NextNode :: "'f packetizer \<Rightarrow> ('f packetizer \<times> nat option) option" where
  "NextNode s =
     (case Sort (node_Compare s) (fUnAllocated s) of
        None \<Rightarrow> None
      | Some us \<Rightarrow>
          (let s1 = s\<lparr>fUnAllocated := us\<rparr> in
           case First us of
             None \<Rightarrow> Some (s1, None)
           | Some fn \<Rightarrow>
               (case nth_opt (fFileNodes s1) fn of
                  None \<Rightarrow> None
                | Some n \<Rightarrow>
                    if fExtSlaveCnt n \<ge> fgMaxSlaveCnt s1 then Some (s1, None)
                    else Some (s1, Some fn))))"

definition NextActiveNode :: "'f packetizer \<Rightarrow> ('f packetizer \<times> nat option) option" where
  "NextActiveNode s =
     (case Sort (node_Compare s) (fActive s) of
        None \<Rightarrow> None
      | Some as \<Rightarrow>
          (let s1 = s\<lparr>fActive := as\<rparr> in
           case First as of
             None \<Rightarrow> Some (s1, None)
           | Some fn \<Rightarrow>
               (case nth_opt (fFileNodes s1) fn of
                  None \<Rightarrow> None
                | Some n \<Rightarrow>
                    if fExtSlaveCnt n \<ge> fgMaxSlaveCnt s1 then Some (s1, None)
                    else Some (s1, Some fn))))"

lemma insert_sorted_mset:
  "insert_sorted cmp x ys = Some zs \<Longrightarrow> mset zs = add_mset x (mset ys)"
  by (induction ys arbitrary: zs) (auto split: option.splits if_splits)

lemma Sort_mset: "Sort cmp xs = Some ys \<Longrightarrow> mset ys = mset xs"
  by (induction xs arbitrary: ys) (auto split: option.splits dest: insert_sorted_mset)

lemma Sort_length: "Sort cmp xs = Some ys \<Longrightarrow> length ys = length xs"
  by (metis Sort_mset size_mset)

lemma Sort_set: "Sort cmp xs = Some ys \<Longrightarrow> set ys = set xs"
  by (metis Sort_mset set_mset_mset)

lemma First_Some_mem: "First xs = Some x \<Longrightarrow> x \<in> set xs"
  by (auto simp: First_def split: list.splits)

subsection \<open>GetNextUnAlloc, GetNextActive, RemoveActive\<close>

text \<open>
  \<open>node_take_unalloc\<close> is the step both branches of \<open>GetNextUnAlloc\<close> share:
  \<open>file = node->GetNextUnAlloc(); if (file == 0) RemoveUnAllocNode(node);\<close>
\<close>

definition node_take_unalloc :: "'f packetizer \<Rightarrow> nat \<Rightarrow> ('f packetizer \<times> nat option) option" where
  "node_take_unalloc s node =
     (case nth_opt (fFileNodes s) node of
        None \<Rightarrow> None
      | Some n \<Rightarrow>
          (case TFileNode_GetNextUnAlloc n of
             (n', file) \<Rightarrow>
               (let s1 = s\<lparr>fFileNodes := (fFileNodes s)[node := n']\<rparr> in
                case file of
                  None \<Rightarrow> Some (RemoveUnAllocNode s1 node, None)
                | Some f \<Rightarrow> Some (s1, Some f))))"

lemma NextNode_Some:
  "NextNode s = Some (s1, Some node) \<Longrightarrow>
   node \<in> set (fUnAllocated s1) \<and> length (fUnAllocated s1) = length (fUnAllocated s)"
  by (auto simp: NextNode_def Let_def split: option.splits if_splits
           dest: First_Some_mem Sort_length)

lemma node_take_unalloc_None:
  "node_take_unalloc s node = Some (s2, None) \<Longrightarrow>
   fUnAllocated s2 = remove1 node (fUnAllocated s)"
  by (auto simp: node_take_unalloc_def RemoveUnAllocNode_def Let_def
           split: option.splits prod.splits)

text \<open>
  The loop \<open>while (file == 0 && ((node = NextNode()) != 0))\<close>; it returns the node
  with the file. Every round that finds no file takes a node out of
  \<open>fUnAllocated\<close>, so the loop ends.
\<close>

function unalloc_loop :: "'f packetizer \<Rightarrow> ('f packetizer \<times> (nat \<times> nat) option) option" where
  "unalloc_loop s =
     (case NextNode s of
        None \<Rightarrow> None
      | Some (s1, None) \<Rightarrow> Some (s1, None)
      | Some (s1, Some node) \<Rightarrow>
          (case node_take_unalloc s1 node of
             None \<Rightarrow> None
           | Some (s2, Some f) \<Rightarrow> Some (s2, Some (node, f))
           | Some (s2, None) \<Rightarrow> unalloc_loop s2))"
  by pat_completeness auto
termination
proof (relation "measure (\<lambda>s. length (fUnAllocated s))")
  show "wf (measure (\<lambda>s. length (fUnAllocated s)))" by simp
next
  fix s :: "'f packetizer" and x2 x y x2a xa ya xb yb
  assume a: "NextNode s = Some x2" "(x, y) = x2" "y = Some x2a"
    "node_take_unalloc x x2a = Some xa" "(xb, yb) = xa" "yb = None"
  from a have n: "NextNode s = Some (x, Some x2a)" by simp
  from a have t: "node_take_unalloc x x2a = Some (xb, None)" by simp
  from NextNode_Some[OF n] have m: "x2a \<in> set (fUnAllocated x)"
    and l: "length (fUnAllocated x) = length (fUnAllocated s)" by simp_all
  from m have "0 < length (fUnAllocated x)" by (rule length_pos_if_in_set)
  with m l node_take_unalloc_None[OF t]
  show "(xb, s) \<in> measure (\<lambda>s. length (fUnAllocated s))"
    by (simp add: length_remove1)
qed

definition make_node_active :: "'f packetizer \<Rightarrow> nat \<Rightarrow> 'f packetizer" where
  "make_node_active s node =
     (if node \<in> set (fActive s) then s else s\<lparr>fActive := fActive s @ [node]\<rparr>)"

text \<open>\<open>GetNextUnAlloc(node)\<close>: the argument is the node, or null.\<close>

definition GetNextUnAlloc :: "'f packetizer \<Rightarrow> nat option \<Rightarrow> ('f packetizer \<times> nat option) option" where
  "GetNextUnAlloc s node0 =
     (case node0 of
        Some node \<Rightarrow>
          (case node_take_unalloc s node of
             None \<Rightarrow> None
           | Some (s1, None) \<Rightarrow> Some (s1, None)
           | Some (s1, Some f) \<Rightarrow> Some (make_node_active s1 node, Some f))
      | None \<Rightarrow>
          (case unalloc_loop s of
             None \<Rightarrow> None
           | Some (s1, None) \<Rightarrow> Some (s1, None)
           | Some (s1, Some (node, f)) \<Rightarrow> Some (make_node_active s1 node, Some f)))"

definition node_take_active :: "'f packetizer \<Rightarrow> nat \<Rightarrow> ('f packetizer \<times> nat option) option" where
  "node_take_active s node =
     (case nth_opt (fFileNodes s) node of
        None \<Rightarrow> None
      | Some n \<Rightarrow>
          (case TFileNode_GetNextActive n of
             (n', file) \<Rightarrow>
               (let s1 = s\<lparr>fFileNodes := (fFileNodes s)[node := n']\<rparr> in
                case file of
                  None \<Rightarrow> Some (RemoveActiveNode s1 node, None)
                | Some f \<Rightarrow> Some (s1, Some f))))"

lemma NextActiveNode_Some:
  "NextActiveNode s = Some (s1, Some node) \<Longrightarrow>
   node \<in> set (fActive s1) \<and> length (fActive s1) = length (fActive s)"
  by (auto simp: NextActiveNode_def Let_def split: option.splits if_splits
           dest: First_Some_mem Sort_length)

lemma node_take_active_None:
  "node_take_active s node = Some (s2, None) \<Longrightarrow>
   fActive s2 = remove1 node (fActive s)"
  by (auto simp: node_take_active_def RemoveActiveNode_def Let_def
           split: option.splits prod.splits)

function GetNextActive :: "'f packetizer \<Rightarrow> ('f packetizer \<times> nat option) option" where
  "GetNextActive s =
     (case NextActiveNode s of
        None \<Rightarrow> None
      | Some (s1, None) \<Rightarrow> Some (s1, None)
      | Some (s1, Some node) \<Rightarrow>
          (case node_take_active s1 node of
             None \<Rightarrow> None
           | Some (s2, Some f) \<Rightarrow> Some (s2, Some f)
           | Some (s2, None) \<Rightarrow> GetNextActive s2))"
  by pat_completeness auto
termination
proof (relation "measure (\<lambda>s. length (fActive s))")
  show "wf (measure (\<lambda>s. length (fActive s)))" by simp
next
  fix s :: "'f packetizer" and x2 x y x2a xa ya xb yb
  assume a: "NextActiveNode s = Some x2" "(x, y) = x2" "y = Some x2a"
    "node_take_active x x2a = Some xa" "(xb, yb) = xa" "yb = None"
  from a have n: "NextActiveNode s = Some (x, Some x2a)" by simp
  from a have t: "node_take_active x x2a = Some (xb, None)" by simp
  from NextActiveNode_Some[OF n] have m: "x2a \<in> set (fActive x)"
    and l: "length (fActive x) = length (fActive s)" by simp_all
  from m have "0 < length (fActive x)" by (rule length_pos_if_in_set)
  with m l node_take_active_None[OF t]
  show "(xb, s) \<in> measure (\<lambda>s. length (fActive s))"
    by (simp add: length_remove1)
qed

definition RemoveActive :: "'f packetizer \<Rightarrow> nat \<Rightarrow> 'f packetizer option" where
  "RemoveActive s file =
     (case nth_opt (fFileStats s) file of
        None \<Rightarrow> None
      | Some fs \<Rightarrow>
          (case nth_opt (fFileNodes s) (fNode fs) of
             None \<Rightarrow> None
           | Some n \<Rightarrow>
               (let n' = TFileNode_RemoveActive n file;
                    s1 = s\<lparr>fFileNodes := (fFileNodes s)[fNode fs := n']\<rparr>
                in if fActFiles n' = [] then Some (RemoveActiveNode s1 (fNode fs))
                   else Some s1)))"

subsection \<open>TSlaveStat: rates\<close>

definition GetAvgRate :: "'f floatops \<Rightarrow> 'f TSlaveStat \<Rightarrow> 'f" where
  "GetAvgRate F st =
     (if f_is_zero F (fProcTime st) then f_of_int F 0
      else f_div F (f_of_int F (sl_fProcessed st)) (fProcTime st))"

definition GetCurRate :: "'f floatops \<Rightarrow> 'f TSlaveStat \<Rightarrow> 'f" where
  "GetCurRate F st =
     (if f_is_zero F (fCurProcTime st) then f_of_int F 0
      else f_div F (f_of_int F (fCurProcessed st)) (fCurProcTime st))"

text \<open>\<open>GetLocalEventsLeft\<close> returns an \<open>Int_t\<close>.\<close>

definition GetLocalEventsLeft :: "'f packetizer \<Rightarrow> 'f TSlaveStat \<Rightarrow> int option" where
  "GetLocalEventsLeft s st =
     (case fFileNode st of
        None \<Rightarrow> Some 0
      | Some node \<Rightarrow>
          (case nth_opt (fFileNodes s) node of
             None \<Rightarrow> None
           | Some n \<Rightarrow> map_option to_Int_t (GetEventsLeftPerSlave n)))"

definition UpdateRates :: "'f floatops \<Rightarrow> 'f packetizer \<Rightarrow> nat \<Rightarrow> int \<Rightarrow> 'f \<Rightarrow> 'f packetizer option" where
  "UpdateRates F s sl nEvents time =
     (case nth_opt (fSlaveStats s) sl of
        None \<Rightarrow> None
      | Some st \<Rightarrow>
     (case fCurFile st of
        None \<Rightarrow> None
      | Some file \<Rightarrow>
     (case nth_opt (fFileStats s) file of
        None \<Rightarrow> None
      | Some fs \<Rightarrow>
     (case nth_opt (fFileNodes s) (fNode fs) of
        None \<Rightarrow> None
      | Some n \<Rightarrow>
          (let st1 = (if fIsDone fs
                      then st\<lparr>fCurProcTime := f_of_int F 0, fCurProcessed := 0\<rparr>
                      else st\<lparr>fCurProcTime := f_add F (fCurProcTime st) time,
                              fCurProcessed := fCurProcessed st + nEvents\<rparr>);
               st2 = st1\<lparr>fProcTime := f_add F (fProcTime st1) time,
                          sl_fProcessed := sl_fProcessed st1 + nEvents\<rparr>
           in Some (s\<lparr>fSlaveStats := (fSlaveStats s)[sl := st2],
                       fFileNodes := (fFileNodes s)[fNode fs := IncProcessed n nEvents]\<rparr>))))))"

subsection \<open>CalculatePacketSize\<close>

definition CalculatePacketSize :: "'f floatops \<Rightarrow> 'f packetizer \<Rightarrow> 'f TSlaveStat \<Rightarrow> int option" where
  "CalculatePacketSize F s slstat =
     (let packetSizeAsFraction = 4;
          size = int (length (fSlaveStats s));
          rate0 = GetCurRate F slstat;
          rate = (if f_is_zero F rate0 then GetAvgRate F slstat else rate0)
      in
      if \<not> f_is_zero F rate then
        (let avgProcRate = f_div F (f_of_int F (fProcessed s))
                             (f_div F (fCumProcTime s) (f_of_int F size));
             packetTime0 = f_div F (f_div F (f_of_int F (fTotalEntries s - fProcessed s))
                                      avgProcRate)
                             (f_of_int F packetSizeAsFraction);
             packetTime = (if f_less F packetTime0 (f_of_int F 2) then f_of_int F 2
                           else packetTime0);
             num = f_to_Long64 F (f_mul F rate packetTime)
         in Some (to_Int_t (if num < 1 then 1 else num)))
      else if 8 * packetSizeAsFraction * size = 0 then None
      else
        (let packetSize = to_Int_t ((fTotalEntries s - fProcessed s)
                                      sdiv (8 * packetSizeAsFraction * size));
             num = f_to_Long64 F
                     (f_mul F (f_of_int F packetSize)
                        (f_div F (f_of_int F (slPerfIdx (fSlave slstat)))
                           (f_of_int F (fMaxPerfIdx s))))
         in Some (to_Int_t (if num < 1 then 1 else num))))"

subsection \<open>GetNextPacket\<close>

text \<open>
  The reply of a worker: three doubles, then up to three optional \<open>Long64_t\<close>
  values (bytes read, total entries, events seen), each read only if the buffer
  still holds data.
\<close>

record 'f reply =
  r_latency :: 'f
  r_proctime :: 'f
  r_proccpu :: 'f
  r_more :: "int list"

definition reply_bytesRead :: "'f reply \<Rightarrow> int" where
  "reply_bytesRead r = (case r_more r of [] \<Rightarrow> - 1 | b # _ \<Rightarrow> b)"

definition reply_totev :: "'f reply \<Rightarrow> int" where
  "reply_totev r = (case r_more r of _ # _ # t # _ \<Rightarrow> t | _ \<Rightarrow> 0)"

text \<open>
  Lines 1099-1111: the events of the packet that comes back: its \<open>num\<close>, or, when
  the reply holds a positive total of events seen, that total less what the worker
  had processed before.
\<close>

definition reply_numev :: "'f TSlaveStat \<Rightarrow> packet \<Rightarrow> 'f reply \<Rightarrow> int" where
  "reply_numev slstat elem r =
     (let numev = pNum elem;
          totev = reply_totev r
      in if totev > 0 then totev - sl_fProcessed slstat else numev)"

text \<open>Lines 1094-1135: the statistics of the packet that comes back.\<close>

definition record_reply :: "'f floatops \<Rightarrow> 'f packetizer \<Rightarrow> nat \<Rightarrow> 'f reply \<Rightarrow> 'f packetizer option" where
  "record_reply F s sl r =
     (case nth_opt (fSlaveStats s) sl of
        None \<Rightarrow> None
      | Some slstat \<Rightarrow>
     (case fCurElem slstat of
        None \<Rightarrow> Some s
      | Some elem \<Rightarrow>
          (let s1 = s\<lparr>fPackets := fPackets s @ [elem]\<rparr>;
               bytesRead = reply_bytesRead r;
               numev = reply_numev slstat elem r;
               s2 = s1\<lparr>fProcessed := fProcessed s1 + (if numev > 0 then numev else 0),
                        fBytesRead := fBytesRead s1 + (if bytesRead > 0 then bytesRead else 0)\<rparr>
           in
           case UpdateRates F s2 sl numev (r_proctime r) of
             None \<Rightarrow> None
           | Some s3 \<Rightarrow>
               (let s4 = s3\<lparr>fCumProcTime := f_add F (fCumProcTime s3) (r_proctime r)\<rparr> in
                case nth_opt (fSlaveStats s4) sl of
                  None \<Rightarrow> None
                | Some slstat' \<Rightarrow>
                    Some (s4\<lparr>fSlaveStats :=
                               (fSlaveStats s4)[sl := slstat'\<lparr>fCurElem := None\<rparr>]\<rparr>)))))"

text \<open>Lines 1142-1152: the worker's current file, or null once it is done.\<close>

definition release_done_file :: "'f packetizer \<Rightarrow> nat \<Rightarrow> ('f packetizer \<times> nat option) option" where
  "release_done_file s sl =
     (case nth_opt (fSlaveStats s) sl of
        None \<Rightarrow> None
      | Some slstat \<Rightarrow>
     (case fCurFile slstat of
        None \<Rightarrow> Some (s, None)
      | Some file \<Rightarrow>
     (case nth_opt (fFileStats s) file of
        None \<Rightarrow> None
      | Some fs \<Rightarrow>
          if fIsDone fs then
            (case nth_opt (fFileNodes s) (fNode fs) of
               None \<Rightarrow> None
             | Some n \<Rightarrow>
            (case DecExtSlaveCnt n (slName (fSlave slstat)) of
               None \<Rightarrow> None
             | Some n1 \<Rightarrow>
            (case DecRunSlaveCnt n1 of
               None \<Rightarrow> None
             | Some n2 \<Rightarrow>
                 Some (s\<lparr>fFileNodes := (fFileNodes s)[fNode fs := n2]\<rparr>, None))))
          else Some (s, Some file))))"

text \<open>Lines 1163-1203: the locality decision.\<close>

definition localPreference :: "'f floatops \<Rightarrow> 'f packetizer \<Rightarrow> 'f" where
  "localPreference F s =
     f_sub F (fBaseLocalPreference s)
       (f_div F (f_of_int F (fNEventsOnRemLoc s))
          (f_mul F (f_0_4 F) (f_of_int F (fTotalEntries s - fProcessed s))))"

definition openLocal_decision ::
  "'f floatops \<Rightarrow> 'f packetizer \<Rightarrow> 'f TSlaveStat \<Rightarrow> TFileNode \<Rightarrow> TFileNode option \<Rightarrow> int \<Rightarrow> bool option" where
  "openLocal_decision F s slstat localNode firstNonLocalNode avgEventsLeftPerSlave =
     (let lp = localPreference F s;
          slaveRate = GetAvgRate F slstat
      in
      case firstNonLocalNode of
        None \<Rightarrow> Some True
      | Some q \<Rightarrow>
          if \<not> (fExtSlaveCnt q < fgMaxSlaveCnt s) then Some True
          else if fRunSlaveCnt localNode > fMySlaveCnt localNode - 1 then Some True
          else
            (case GetLocalEventsLeft s slstat of
               None \<Rightarrow> None
             | Some lel \<Rightarrow>
                 if f_is_zero F slaveRate then
                   (if f_less F (f_of_int F avgEventsLeftPerSlave) (f_mul F (f_of_int F lel) lp)
                    then Some True
                    else
                      (case GetEventsLeftPerSlave q of
                         None \<Rightarrow> None
                       | Some ql \<Rightarrow>
                           if f_less F (f_of_int F ql) (f_mul F (f_of_int F lel) lp)
                           then Some True
                           else if fExtSlaveCnt q > 1 then Some True
                           else if fRunSlaveCnt q = 0 then Some True
                           else Some False))
                 else
                   (let slaveTime = f_div F (f_of_int F lel) slaveRate;
                        avgTime = f_div F (f_of_int F avgEventsLeftPerSlave)
                                    (f_div F (f_of_int F (fProcessed s)) (fCumProcTime s))
                    in
                    if f_less F avgTime (f_mul F slaveTime lp) then Some True
                    else
                      (case GetEventsLeftPerSlave q of
                         None \<Rightarrow> None
                       | Some ql \<Rightarrow>
                           if f_less F (f_of_int F ql) (f_mul F (f_of_int F lel) lp)
                           then Some True
                           else Some False))))"

text \<open>Lines 1165-1214: the worker's own node, if it still has one.\<close>

definition try_local :: "'f floatops \<Rightarrow> 'f packetizer \<Rightarrow> nat \<Rightarrow> int \<Rightarrow> ('f packetizer \<times> nat option) option" where
  "try_local F s sl avgEventsLeftPerSlave =
     (case nth_opt (fSlaveStats s) sl of
        None \<Rightarrow> None
      | Some slstat \<Rightarrow>
     (case fFileNode slstat of
        None \<Rightarrow> Some (s, None)
      | Some lnode \<Rightarrow>
     (case Sort (node_Compare s) (fUnAllocated s) of
        None \<Rightarrow> None
      | Some us \<Rightarrow>
     (let s1 = s\<lparr>fUnAllocated := us\<rparr> in
      case nth_opt (fFileNodes s1) lnode of
        None \<Rightarrow> None
      | Some localNode \<Rightarrow>
     (case (case First us of
              None \<Rightarrow> Some None
            | Some q \<Rightarrow> map_option Some (nth_opt (fFileNodes s1) q)) of
        None \<Rightarrow> None
      | Some firstNonLocalNode \<Rightarrow>
     (case openLocal_decision F s1 slstat localNode firstNonLocalNode
             avgEventsLeftPerSlave of
        None \<Rightarrow> None
      | Some False \<Rightarrow> Some (s1, None)
      | Some True \<Rightarrow>
          (case TFileNode_GetNextUnAlloc localNode of
             (n1, file1) \<Rightarrow>
               (case (case file1 of
                        Some f \<Rightarrow> (n1, Some f)
                      | None \<Rightarrow> TFileNode_GetNextActive n1) of
                  (n2, file2) \<Rightarrow>
                    (let s2 = s1\<lparr>fFileNodes := (fFileNodes s1)[lnode := n2]\<rparr> in
                     case file2 of
                       Some f \<Rightarrow> Some (s2, Some f)
                     | None \<Rightarrow>
                         Some (s2\<lparr>fSlaveStats :=
                                    (fSlaveStats s2)[sl := slstat\<lparr>fFileNode := None\<rparr>]\<rparr>,
                               None))))))))))"

text \<open>Lines 1228-1241: the chosen file becomes the worker's current file.\<close>

definition assign_file :: "'f packetizer \<Rightarrow> nat \<Rightarrow> nat \<Rightarrow> 'f packetizer option" where
  "assign_file s sl file =
     (case nth_opt (fSlaveStats s) sl of
        None \<Rightarrow> None
      | Some slstat \<Rightarrow>
     (case nth_opt (fFileStats s) file of
        None \<Rightarrow> None
      | Some fs \<Rightarrow>
     (case nth_opt (fFileNodes s) (fNode fs) of
        None \<Rightarrow> None
      | Some n \<Rightarrow>
     (let s1 = s\<lparr>fSlaveStats := (fSlaveStats s)[sl := slstat\<lparr>fCurFile := Some file\<rparr>]\<rparr> in
      case (if fMySlaveCnt n = 0 then
              (case nth_opt (fElements s1) (fElement fs) of
                 None \<Rightarrow> None
               | Some e \<Rightarrow>
                   if fFirst e = fNextEntry fs then
                     (let s2 = s1\<lparr>fNEventsOnRemLoc := fNEventsOnRemLoc s1 - fNum e\<rparr>
                      in if fNEventsOnRemLoc s2 \<ge> 0 then Some s2 else None)
                   else Some s1)
            else Some s1) of
        None \<Rightarrow> None
      | Some s3 \<Rightarrow>
          Some (s3\<lparr>fFileNodes :=
                     (fFileNodes s3)[fNode fs :=
                        IncRunSlaveCnt (IncExtSlaveCnt n (slName (fSlave slstat)))]\<rparr>)))))"

text \<open>Lines 1159-1242: a new file for a worker that has none.\<close>

definition choose_file :: "'f floatops \<Rightarrow> 'f packetizer \<Rightarrow> nat \<Rightarrow> int \<Rightarrow> ('f packetizer \<times> nat option) option" where
  "choose_file F s sl avgEventsLeftPerSlave =
     (case try_local F s sl avgEventsLeftPerSlave of
        None \<Rightarrow> None
      | Some (s1, file1) \<Rightarrow>
     (case (case file1 of
              Some f \<Rightarrow> Some (s1, Some f)
            | None \<Rightarrow> GetNextUnAlloc s1 None) of
        None \<Rightarrow> None
      | Some (s2, file2) \<Rightarrow>
     (case (case file2 of
              Some f \<Rightarrow> Some (s2, Some f)
            | None \<Rightarrow> GetNextActive s2) of
        None \<Rightarrow> None
      | Some (s3, None) \<Rightarrow> Some (s3, None)
      | Some (s3, Some file) \<Rightarrow>
          (case assign_file s3 sl file of
             None \<Rightarrow> None
           | Some s4 \<Rightarrow> Some (s4, Some file)))))"

text \<open>
  The constructor \<open>TDSetElement(file, objname, dir, first, num, msd)\<close> of TDSet.cxx
  replaces a negative \<open>first\<close> by 0 and a \<open>num\<close> below -1 by -1.

  Modelled from the spec: \<open>CreateNewPacket\<close> (of \<open>TVirtualPacketizer\<close>) is not
  under src/. The spec has it build the outgoing element description for the
  sub-range; the model builds it with the constructor above.
\<close>

definition CreateNewPacket :: "nat \<Rightarrow> int \<Rightarrow> int \<Rightarrow> packet" where
  "CreateNewPacket base first num =
     \<lparr> pBase = base,
       pFirst = (if first < 0 then 0 else first),
       pNum = (if num < - 1 then - 1 else num),
       pEntryList = None \<rparr>"

definition SetEntryList :: "packet \<Rightarrow> TObjectList option \<Rightarrow> packet" where
  "SetEntryList p aList =
     (case aList of
        Some (EntryList n) \<Rightarrow> p\<lparr>pEntryList := aList\<rparr>
      | Some (EventList n) \<Rightarrow> p\<lparr>pEntryList := aList\<rparr>
      | _ \<Rightarrow> p)"

text \<open>Lines 1248-1270: the sub-range is cut from the file.\<close>

definition carve :: "'f packetizer \<Rightarrow> nat \<Rightarrow> nat \<Rightarrow> int \<Rightarrow> ('f packetizer \<times> packet option) option" where
  "carve s sl file num0 =
     (case nth_opt (fFileStats s) file of
        None \<Rightarrow> None
      | Some fs \<Rightarrow>
     (case nth_opt (fElements s) (fElement fs) of
        None \<Rightarrow> None
      | Some base \<Rightarrow>
     (let first = fNextEntry fs;
          last = fFirst base + fNum base
      in
      case (if first + num0 \<ge> last then
              (case RemoveActive (s\<lparr>fFileStats := (fFileStats s)[file := fs\<lparr>fIsDone := True\<rparr>]\<rparr>)
                      file of
                 None \<Rightarrow> None
               | Some s1 \<Rightarrow> Some (s1, last - first))
            else
              Some (s\<lparr>fFileStats :=
                         (fFileStats s)[file := fs\<lparr>fNextEntry := fNextEntry fs + num0\<rparr>]\<rparr>,
                    num0)) of
        None \<Rightarrow> None
      | Some (s1, num) \<Rightarrow>
          (let p0 = CreateNewPacket (fElement fs) first num;
               p = (if fEntryList base \<noteq> None then SetEntryList p0 (fEntryList base)
                    else p0)
           in
           case nth_opt (fSlaveStats s1) sl of
             None \<Rightarrow> None
           | Some slstat \<Rightarrow>
               Some (s1\<lparr>fSlaveStats := (fSlaveStats s1)[sl := slstat\<lparr>fCurElem := Some p\<rparr>]\<rparr>,
                     Some p)))))"

text \<open>
  Lines 1082-1157: everything before a file is looked for. The result is the state
  and either \<open>Inl ()\<close> (the function returns null here) or \<open>Inr file\<close>, the
  worker's current file if it is still in use.
\<close>

definition before_file :: "'f floatops \<Rightarrow> 'f packetizer \<Rightarrow> nat \<Rightarrow> 'f reply \<Rightarrow> ('f packetizer \<times> (unit + nat option)) option" where
  "before_file F s sl r =
     (if \<not> fValid s then Some (s, Inl ())
      else
        (case record_reply F s sl r of
           None \<Rightarrow> None
         | Some s1 \<Rightarrow>
             if fStop s1 then Some (s1, Inl ())
             else
               (case release_done_file s1 sl of
                  None \<Rightarrow> None
                | Some (s2, file) \<Rightarrow>
                    if fTotalEntries s2 = fProcessed s2 then Some (s2, Inl ())
                    else Some (s2, Inr file))))"

definition GetNextPacket :: "'f floatops \<Rightarrow> 'f packetizer \<Rightarrow> nat \<Rightarrow> 'f reply \<Rightarrow> ('f packetizer \<times> packet option) option" where
  "GetNextPacket F s sl r =
     (case before_file F s sl r of
        None \<Rightarrow> None
      | Some (s2, Inl _) \<Rightarrow> Some (s2, None)
      | Some (s2, Inr file0) \<Rightarrow>
          (let avgEventsLeftPerSlave =
                 (fTotalEntries s2 - fProcessed s2) sdiv int (length (fSlaveStats s2))
           in
           case (case file0 of
                   Some f \<Rightarrow> Some (s2, Some f)
                 | None \<Rightarrow> choose_file F s2 sl avgEventsLeftPerSlave) of
             None \<Rightarrow> None
           | Some (s3, None) \<Rightarrow> Some (s3, None)
           | Some (s3, Some file) \<Rightarrow>
               (case nth_opt (fSlaveStats s3) sl of
                  None \<Rightarrow> None
                | Some slstat \<Rightarrow>
                    (case CalculatePacketSize F s3 slstat of
                       None \<Rightarrow> None
                     | Some num \<Rightarrow> carve s3 sl file num))))"

section \<open>What the file search leaves unchanged\<close>

text \<open>
  The search for a file moves cursors and counts workers; it leaves alone the flags,
  the counters of processed events, the elements, the file cursors and the packets
  in flight.
\<close>

declare unalloc_loop.simps [simp del] GetNextActive.simps [simp del]

lemma nth_opt_Some: "nth_opt xs i = Some x \<longleftrightarrow> i < length xs \<and> xs ! i = x"
  by (auto simp: nth_opt_def)

lemma map_update_same:
  "nth_opt xs i = Some x \<Longrightarrow> f y = f x \<Longrightarrow> map f (xs[i := y]) = map f xs"
  by (simp add: nth_opt_Some map_update list_update_same_conv)

definition frame :: "'f packetizer \<Rightarrow> bool \<times> bool \<times> int \<times> int \<times> TDSetElement list \<times> TFileStat list \<times> int list \<times> int list \<times> packet option list" where
  "frame s = (fValid s, fStop s, fProcessed s, fTotalEntries s, fElements s, fFileStats s,
              map sl_fProcessed (fSlaveStats s), map fn_fProcessed (fFileNodes s), map fCurElem (fSlaveStats s))"

lemma TFileNode_GetNextUnAlloc_processed:
  "TFileNode_GetNextUnAlloc n = (n', f) \<Longrightarrow> fn_fProcessed n' = fn_fProcessed n"
  by (auto simp: TFileNode_GetNextUnAlloc_def Let_def split: option.splits if_splits)

lemma TFileNode_GetNextActive_processed:
  "TFileNode_GetNextActive n = (n', f) \<Longrightarrow> fn_fProcessed n' = fn_fProcessed n"
  by (auto simp: TFileNode_GetNextActive_def Let_def split: option.splits if_splits)

lemma TFileNode_RemoveActive_processed:
  "fn_fProcessed (TFileNode_RemoveActive n f) = fn_fProcessed n"
  by (auto simp: TFileNode_RemoveActive_def Let_def split: option.splits if_splits)

lemma NextNode_frame: "NextNode s = Some (s', x) \<Longrightarrow> frame s' = frame s"
  by (auto simp: NextNode_def frame_def Let_def split: option.splits if_splits)

lemma NextActiveNode_frame: "NextActiveNode s = Some (s', x) \<Longrightarrow> frame s' = frame s"
  by (auto simp: NextActiveNode_def frame_def Let_def split: option.splits if_splits)

lemma node_take_unalloc_frame: "node_take_unalloc s node = Some (s', x) \<Longrightarrow> frame s' = frame s"
  by (auto simp: node_take_unalloc_def frame_def Let_def RemoveUnAllocNode_def map_update_same
        dest!: TFileNode_GetNextUnAlloc_processed split: option.splits if_splits prod.splits)

lemma node_take_active_frame: "node_take_active s node = Some (s', x) \<Longrightarrow> frame s' = frame s"
  by (auto simp: node_take_active_def frame_def Let_def RemoveActiveNode_def map_update_same
        dest!: TFileNode_GetNextActive_processed split: option.splits if_splits prod.splits)

lemma unalloc_loop_inv:
  assumes "unalloc_loop s = Some (s', x)" and "Q s"
    and N: "\<And>t t1 y. Q t \<Longrightarrow> NextNode t = Some (t1, y) \<Longrightarrow> Q t1"
    and T: "\<And>t t1 node. Q t \<Longrightarrow> node_take_unalloc t node = Some (t1, None) \<Longrightarrow> Q t1"
  shows "case x of None \<Rightarrow> Q s'
         | Some (node, f) \<Rightarrow> \<exists>s1. Q s1 \<and> node_take_unalloc s1 node = Some (s', Some f)"
  using assms(1,2)
proof (induction s rule: unalloc_loop.induct)
  case (1 s)
  note eq = unalloc_loop.simps[of s]
  show ?case
  proof (cases "NextNode s")
    case None
    with eq "1.prems"(1) show ?thesis by simp
  next
    case (Some a)
    obtain s1 y where a: "a = (s1, y)" by (cases a)
    from Some a have nn: "NextNode s = Some (s1, y)" by simp
    have q1: "Q s1" using N[OF "1.prems"(2) nn] .
    show ?thesis
    proof (cases y)
      case None
      with eq nn "1.prems"(1) have "s' = s1" "x = None" by simp_all
      with q1 show ?thesis by simp
    next
      case (Some node)
      note y = Some
      show ?thesis
      proof (cases "node_take_unalloc s1 node")
        case None
        with eq nn y "1.prems"(1) show ?thesis by simp
      next
        case (Some b)
        obtain s2 fo where b: "b = (s2, fo)" by (cases b)
        from Some b have tk: "node_take_unalloc s1 node = Some (s2, fo)" by simp
        show ?thesis
        proof (cases fo)
          case None
          with tk have tk': "node_take_unalloc s1 node = Some (s2, None)" by simp
          have q2: "Q s2" using T[OF q1 tk'] .
          from eq nn y tk' "1.prems"(1) have rec: "unalloc_loop s2 = Some (s', x)" by simp
          from nn y have nn': "NextNode s = Some (s1, Some node)" by simp
          show ?thesis
            using "1.IH"[OF nn' refl refl tk' refl refl rec q2] .
        next
          case (Some f)
          with eq nn y tk "1.prems"(1) have "s' = s2" "x = Some (node, f)" by simp_all
          with q1 tk Some show ?thesis by auto
        qed
      qed
    qed
  qed
qed

lemma GetNextActive_inv:
  assumes "GetNextActive s = Some (s', x)" and "Q s"
    and N: "\<And>t t1 y. Q t \<Longrightarrow> NextActiveNode t = Some (t1, y) \<Longrightarrow> Q t1"
    and T: "\<And>t t1 node. Q t \<Longrightarrow> node_take_active t node = Some (t1, None) \<Longrightarrow> Q t1"
  shows "case x of None \<Rightarrow> Q s'
         | Some f \<Rightarrow> \<exists>s1 node. Q s1 \<and> node_take_active s1 node = Some (s', Some f)"
  using assms(1,2)
proof (induction s rule: GetNextActive.induct)
  case (1 s)
  note eq = GetNextActive.simps[of s]
  show ?case
  proof (cases "NextActiveNode s")
    case None
    with eq "1.prems"(1) show ?thesis by simp
  next
    case (Some a)
    obtain s1 y where a: "a = (s1, y)" by (cases a)
    from Some a have nn: "NextActiveNode s = Some (s1, y)" by simp
    have q1: "Q s1" using N[OF "1.prems"(2) nn] .
    show ?thesis
    proof (cases y)
      case None
      with eq nn "1.prems"(1) have "s' = s1" "x = None" by simp_all
      with q1 show ?thesis by simp
    next
      case (Some node)
      note y = Some
      show ?thesis
      proof (cases "node_take_active s1 node")
        case None
        with eq nn y "1.prems"(1) show ?thesis by simp
      next
        case (Some b)
        obtain s2 fo where b: "b = (s2, fo)" by (cases b)
        from Some b have tk: "node_take_active s1 node = Some (s2, fo)" by simp
        show ?thesis
        proof (cases fo)
          case None
          with tk have tk': "node_take_active s1 node = Some (s2, None)" by simp
          have q2: "Q s2" using T[OF q1 tk'] .
          from eq nn y tk' "1.prems"(1) have rec: "GetNextActive s2 = Some (s', x)" by simp
          from nn y have nn': "NextActiveNode s = Some (s1, Some node)" by simp
          show ?thesis
            using "1.IH"[OF nn' refl refl tk' refl refl rec q2] .
        next
          case (Some f)
          with eq nn y tk "1.prems"(1) have "s' = s2" "x = Some f" by simp_all
          with q1 tk Some show ?thesis by auto
        qed
      qed
    qed
  qed
qed

lemma unalloc_loop_frame:
  assumes "unalloc_loop s = Some (s', x)" shows "frame s' = frame s"
proof -
  have "case x of None \<Rightarrow> frame s' = frame s
        | Some (node, f) \<Rightarrow> \<exists>s1. frame s1 = frame s \<and> node_take_unalloc s1 node = Some (s', Some f)"
    by (rule unalloc_loop_inv[OF assms, where Q = "\<lambda>t. frame t = frame s"])
       (simp_all add: NextNode_frame node_take_unalloc_frame)
  then show ?thesis
    by (cases x) (auto dest: node_take_unalloc_frame)
qed

lemma GetNextActive_frame:
  assumes "GetNextActive s = Some (s', x)" shows "frame s' = frame s"
proof -
  have "case x of None \<Rightarrow> frame s' = frame s
        | Some f \<Rightarrow> \<exists>s1 node. frame s1 = frame s \<and> node_take_active s1 node = Some (s', Some f)"
    by (rule GetNextActive_inv[OF assms, where Q = "\<lambda>t. frame t = frame s"])
       (simp_all add: NextActiveNode_frame node_take_active_frame)
  then show ?thesis
    by (cases x) (auto dest: node_take_active_frame)
qed

lemma make_node_active_frame: "frame (make_node_active s node) = frame s"
  by (simp add: make_node_active_def frame_def)

lemma GetNextUnAlloc_frame: "GetNextUnAlloc s node0 = Some (s', x) \<Longrightarrow> frame s' = frame s"
  by (auto simp: GetNextUnAlloc_def make_node_active_frame
           split: option.splits prod.splits
           dest: unalloc_loop_frame node_take_unalloc_frame)

lemma try_local_frame: "try_local F s sl avg = Some (s', x) \<Longrightarrow> frame s' = frame s"
  by (auto simp: try_local_def frame_def Let_def map_update_same
        dest!: TFileNode_GetNextUnAlloc_processed TFileNode_GetNextActive_processed
        split: option.splits if_splits prod.splits bool.splits)

lemma assign_file_frame: "assign_file s sl file = Some s' \<Longrightarrow> frame s' = frame s"
  by (auto simp: assign_file_def frame_def Let_def map_update_same IncRunSlaveCnt_def IncExtSlaveCnt_def
        split: option.splits if_splits prod.splits)

lemma choose_file_frame: "choose_file F s sl avg = Some (s', x) \<Longrightarrow> frame s' = frame s"
  by (auto simp: choose_file_def split: option.splits prod.splits)
     (metis try_local_frame GetNextUnAlloc_frame GetNextActive_frame assign_file_frame)+

lemma release_done_file_frame: "release_done_file s sl = Some (s', x) \<Longrightarrow> frame s' = frame s"
  by (auto simp: release_done_file_def frame_def Let_def map_update_same DecExtSlaveCnt_def DecRunSlaveCnt_def
        split: option.splits if_splits prod.splits)

subsection \<open>Compare on nodes that tie\<close>

definition tie_node :: "string \<Rightarrow> TFileNode" where
  "tie_node name = \<lparr> fNodeName = name, fFiles = [], fUnAllocFileNext = None,
     fActFiles = [], fActFileNext = None, fMySlaveCnt = 0, fExtSlaveCnt = 0,
     fRunSlaveCnt = 0, fn_fProcessed = 0, fEvents = 1000 \<rparr>"

lemma Compare_default_never_0:
  "nf \<noteq> 0 \<Longrightarrow> Compare nf m A B \<noteq> Some 0"
  by (simp add: Compare_def Let_def)

lemma Compare_default_fewer_running:
  "nf \<noteq> 0 \<Longrightarrow> fRunSlaveCnt A < fRunSlaveCnt B \<Longrightarrow>
   Compare nf m A B = Some (- 1) \<and> Compare nf m B A = Some 1"
  by (simp add: Compare_def Let_def)

lemma Compare_default_more_remaining:
  "nf \<noteq> 0 \<Longrightarrow> fRunSlaveCnt A = fRunSlaveCnt B \<Longrightarrow>
   fEvents A - fn_fProcessed A > fEvents B - fn_fProcessed B \<Longrightarrow>
   Compare nf m A B = Some (- 1) \<and> Compare nf m B A = Some 1"
  by (simp add: Compare_def Let_def)

text \<open>
  C6. The claim: \<open>Compare\<close> is antisymmetric (the two results have opposite signs or
  are both 0), and in the default network-faster-than-HD mode nodes with equal
  running workers and equal remaining records compare equal. In the default mode
  the source returns 1 for such a pair in both directions: two nodes with no
  running worker and 1000 remaining records each compare as "larger" both ways,
  where the comment heading \<open>Compare\<close> asks for 0.
\<close>

theorem Compare_tie_default_mode:
  "Compare 1 2 (tie_node ''h1'') (tie_node ''h2'') = Some 1 \<and>
   Compare 1 2 (tie_node ''h2'') (tie_node ''h1'') = Some 1"
  by (simp add: Compare_def tie_node_def)

section \<open>The counters of processed events\<close>

definition counters :: "'f packetizer \<Rightarrow> bool \<times> bool \<times> int \<times> int \<times> int list \<times> int list" where
  "counters s = (fValid s, fStop s, fProcessed s, fTotalEntries s,
                 map sl_fProcessed (fSlaveStats s), map fn_fProcessed (fFileNodes s))"

lemma frame_counters: "frame s' = frame s \<Longrightarrow> counters s' = counters s"
  by (simp add: frame_def counters_def)

lemma RemoveActive_counters: "RemoveActive s file = Some s' \<Longrightarrow> counters s' = counters s"
  by (auto simp: RemoveActive_def counters_def Let_def RemoveActiveNode_def map_update_same
                 TFileNode_RemoveActive_processed
           split: option.splits if_splits)

lemma carve_counters:
  "carve s sl file num = Some (s', po) \<Longrightarrow> counters s' = counters s \<and> po \<noteq> None"
  by (auto simp: carve_def counters_def Let_def map_update_same
           split: option.splits if_splits prod.splits
           dest!: RemoveActive_counters)

lemma UpdateRates_effect:
  "UpdateRates F s sl nEvents time = Some s1 \<Longrightarrow>
   \<exists>slstat file fs n.
     nth_opt (fSlaveStats s) sl = Some slstat \<and> fCurFile slstat = Some file \<and>
     nth_opt (fFileStats s) file = Some fs \<and> nth_opt (fFileNodes s) (fNode fs) = Some n \<and>
     fValid s1 = fValid s \<and> fStop s1 = fStop s \<and> fProcessed s1 = fProcessed s \<and>
     fTotalEntries s1 = fTotalEntries s \<and>
     map sl_fProcessed (fSlaveStats s1) =
       (map sl_fProcessed (fSlaveStats s))[sl := sl_fProcessed slstat + nEvents] \<and>
     map fn_fProcessed (fFileNodes s1) =
       (map fn_fProcessed (fFileNodes s))[fNode fs := fn_fProcessed n + nEvents]"
  by (auto simp: UpdateRates_def Let_def map_update IncProcessed_def
           split: option.splits if_splits)

lemma record_reply_effect:
  assumes "record_reply F s sl r = Some s1"
  shows "\<exists>slstat. nth_opt (fSlaveStats s) sl = Some slstat \<and>
     fValid s1 = fValid s \<and> fStop s1 = fStop s \<and> fTotalEntries s1 = fTotalEntries s \<and>
     (case fCurElem slstat of
        None \<Rightarrow> s1 = s
      | Some elem \<Rightarrow>
          (\<exists>file fs n.
             fCurFile slstat = Some file \<and>
             nth_opt (fFileStats s) file = Some fs \<and> nth_opt (fFileNodes s) (fNode fs) = Some n \<and>
             fProcessed s1 = fProcessed s + max 0 (reply_numev slstat elem r) \<and>
             map sl_fProcessed (fSlaveStats s1) =
               (map sl_fProcessed (fSlaveStats s))
                 [sl := sl_fProcessed slstat + reply_numev slstat elem r] \<and>
             map fn_fProcessed (fFileNodes s1) =
               (map fn_fProcessed (fFileNodes s))
                 [fNode fs := fn_fProcessed n + reply_numev slstat elem r]))"
proof -
  from assms obtain slstat where sl: "nth_opt (fSlaveStats s) sl = Some slstat"
    by (auto simp: record_reply_def split: option.splits)
  show ?thesis
  proof (cases "fCurElem slstat")
    case None
    with assms sl show ?thesis by (simp add: record_reply_def)
  next
    case (Some elem)
    let ?numev = "reply_numev slstat elem r"
    let ?s2 = "s\<lparr>fPackets := fPackets s @ [elem],
                 fProcessed := fProcessed s + (if ?numev > 0 then ?numev else 0),
                 fBytesRead := fBytesRead s + (if reply_bytesRead r > 0 then reply_bytesRead r else 0)\<rparr>"
    from assms sl Some obtain s3 slstat' where
      u: "UpdateRates F ?s2 sl ?numev (r_proctime r) = Some s3" and
      s1: "s1 = (s3\<lparr>fCumProcTime := f_add F (fCumProcTime s3) (r_proctime r)\<rparr>)
                  \<lparr>fSlaveStats := (fSlaveStats s3)[sl := slstat'\<lparr>fCurElem := None\<rparr>]\<rparr>" and
      sl': "nth_opt (fSlaveStats s3) sl = Some slstat'"
      by (auto simp: record_reply_def Let_def split: option.splits)
    from UpdateRates_effect[OF u] sl obtain cfile fs n where
      e: "fCurFile slstat = Some cfile" "nth_opt (fFileStats s) cfile = Some fs"
         "nth_opt (fFileNodes s) (fNode fs) = Some n"
         "fValid s3 = fValid s" "fStop s3 = fStop s"
         "fProcessed s3 = fProcessed s + (if ?numev > 0 then ?numev else 0)"
         "fTotalEntries s3 = fTotalEntries s"
         "map sl_fProcessed (fSlaveStats s3) =
            (map sl_fProcessed (fSlaveStats s))[sl := sl_fProcessed slstat + ?numev]"
         "map fn_fProcessed (fFileNodes s3) =
            (map fn_fProcessed (fFileNodes s))[fNode fs := fn_fProcessed n + ?numev]"
      by auto
    have m: "map sl_fProcessed ((fSlaveStats s3)[sl := slstat'\<lparr>fCurElem := None\<rparr>])
             = map sl_fProcessed (fSlaveStats s3)"
      using sl' by (simp add: map_update_same)
    show ?thesis using sl Some e m by (auto simp: s1 max_def)
  qed
qed

lemma before_file_effect:
  assumes "before_file F s sl r = Some (s2, res)"
  shows "fValid s2 = fValid s \<and> fStop s2 = fStop s \<and> fTotalEntries s2 = fTotalEntries s \<and>
         ((\<exists>u. res = Inl u) \<longleftrightarrow> \<not> fValid s \<or> fStop s \<or> fTotalEntries s = fProcessed s2) \<and>
         (if fValid s then \<exists>s1. record_reply F s sl r = Some s1 \<and> counters s2 = counters s1
          else s2 = s)"
proof (cases "fValid s")
  case False
  with assms show ?thesis by (simp add: before_file_def)
next
  case True
  with assms obtain s1 where rr: "record_reply F s sl r = Some s1"
    by (auto simp: before_file_def split: option.splits)
  from record_reply_effect[OF rr] have f1: "fValid s1 = fValid s" "fStop s1 = fStop s"
    "fTotalEntries s1 = fTotalEntries s" by auto
  show ?thesis
  proof (cases "fStop s1")
    case True
    with assms \<open>fValid s\<close> rr f1 show ?thesis by (auto simp: before_file_def)
  next
    case False
    with assms \<open>fValid s\<close> rr obtain cfile where
      rel: "release_done_file s1 sl = Some (s2, cfile)"
      by (auto simp: before_file_def split: option.splits if_splits)
    from release_done_file_frame[OF rel] have c: "counters s2 = counters s1"
      by (rule frame_counters)
    then have f2: "fValid s2 = fValid s1" "fStop s2 = fStop s1"
      "fTotalEntries s2 = fTotalEntries s1" by (simp_all add: counters_def)
    from assms \<open>fValid s\<close> rr False rel
    have "res = (if fTotalEntries s2 = fProcessed s2 then Inl () else Inr cfile)"
      by (auto simp: before_file_def split: if_splits)
    with f1 f2 c rr False \<open>fValid s\<close> show ?thesis by auto
  qed
qed

definition no_file_found :: "'f floatops \<Rightarrow> 'f packetizer \<Rightarrow> nat \<Rightarrow> 'f reply \<Rightarrow> bool" where
  "no_file_found F s sl r =
     (case before_file F s sl r of
        Some (s2, Inr None) \<Rightarrow>
          (case choose_file F s2 sl
                  ((fTotalEntries s2 - fProcessed s2) sdiv int (length (fSlaveStats s2))) of
             Some (s3, None) \<Rightarrow> True
           | _ \<Rightarrow> False)
      | _ \<Rightarrow> False)"

lemma GetNextPacket_after_before_file:
  assumes "GetNextPacket F s sl r = Some (s', po)"
  shows "\<exists>s2 res. before_file F s sl r = Some (s2, res) \<and> counters s' = counters s2 \<and>
           (po = None \<longleftrightarrow> (\<exists>u. res = Inl u) \<or> no_file_found F s sl r)"
proof -
  from assms obtain s2 res where bf: "before_file F s sl r = Some (s2, res)"
    by (auto simp: GetNextPacket_def split: option.splits)
  show ?thesis
  proof (cases res)
    case (Inl u)
    with assms bf show ?thesis by (auto simp: GetNextPacket_def)
  next
    case (Inr file0)
    let ?avg = "(fTotalEntries s2 - fProcessed s2) sdiv int (length (fSlaveStats s2))"
    show ?thesis
    proof (cases file0)
      case (Some f)
      with assms bf Inr obtain slstat num where "carve s2 sl f num = Some (s', po)"
        by (auto simp: GetNextPacket_def Let_def split: option.splits)
      from carve_counters[OF this] bf Inr Some show ?thesis
        by (auto simp: no_file_found_def)
    next
      case None
      with assms bf Inr obtain s3 fo where ch: "choose_file F s2 sl ?avg = Some (s3, fo)"
        by (auto simp: GetNextPacket_def Let_def split: option.splits)
      from choose_file_frame[OF ch] have c3: "counters s3 = counters s2"
        by (rule frame_counters)
      show ?thesis
      proof (cases fo)
        case None
        with assms bf Inr \<open>file0 = None\<close> ch c3 show ?thesis
          by (auto simp: GetNextPacket_def Let_def no_file_found_def)
      next
        case (Some f)
        with assms bf Inr \<open>file0 = None\<close> ch obtain slstat num where
          "carve s3 sl f num = Some (s', po)"
          by (auto simp: GetNextPacket_def Let_def split: option.splits)
        from carve_counters[OF this] bf Inr Some \<open>file0 = None\<close> ch c3 show ?thesis
          by (auto simp: no_file_found_def)
      qed
    qed
  qed
qed

subsection \<open>Runs and example states\<close>

fun run :: "'f floatops \<Rightarrow> 'f packetizer \<Rightarrow> (nat \<times> 'f reply) list \<Rightarrow> ('f packetizer \<times> packet option list) option" where
  "run F s [] = Some (s, [])"
| "run F s ((sl, r) # calls) =
     (case GetNextPacket F s sl r of
        None \<Rightarrow> None
      | Some (s1, po) \<Rightarrow>
          (case run F s1 calls of
             None \<Rightarrow> None
           | Some (s2, pos) \<Rightarrow> Some (s2, po # pos)))"

definition workers_processed :: "'f packetizer \<Rightarrow> int" where
  "workers_processed s = sum_list (map sl_fProcessed (fSlaveStats s))"

definition ex_node :: "string \<Rightarrow> nat list \<Rightarrow> int \<Rightarrow> int \<Rightarrow> TFileNode" where
  "ex_node name files mySlaves events =
     \<lparr> fNodeName = name, fFiles = files, fUnAllocFileNext = First files,
       fActFiles = [], fActFileNext = None, fMySlaveCnt = mySlaves, fExtSlaveCnt = 0,
       fRunSlaveCnt = 0, fn_fProcessed = 0, fEvents = events \<rparr>"

definition ex_slave :: "string \<Rightarrow> nat option \<Rightarrow> rat TSlaveStat" where
  "ex_slave name node =
     \<lparr> fSlave = \<lparr>slName = name, slPerfIdx = 100\<rparr>, fFileNode = node,
       fCurFile = None, fCurElem = None, sl_fProcessed = 0, fProcTime = 0,
       fCurProcessed = 0, fCurProcTime = 0 \<rparr>"

definition ex_elem :: "string \<Rightarrow> int \<Rightarrow> int \<Rightarrow> TDSetElement" where
  "ex_elem host first num =
     \<lparr> fName = \<lparr>urlValid = True, urlProtocol = ''root'', urlHost = host\<rparr>,
       fTitle = ''tree'', fFirst = first, fNum = num, fTDSetOffset = 0,
       fEntryList = None, el_fValid = False \<rparr>"

definition ex_file :: "nat \<Rightarrow> nat \<Rightarrow> int \<Rightarrow> TFileStat" where
  "ex_file node elem first = \<lparr>fIsDone = False, fNode = node, fElement = elem, fNextEntry = first\<rparr>"

definition ex_packetizer ::
  "TFileNode list \<Rightarrow> TFileStat list \<Rightarrow> TDSetElement list \<Rightarrow> rat TSlaveStat list \<Rightarrow> int \<Rightarrow> rat packetizer" where
  "ex_packetizer nodes files elems slaves totalEntries =
     \<lparr> fValid = True, fStop = False, fProcessed = 0, fTotalEntries = totalEntries, fBytesRead = 0,
       fNEventsOnRemLoc = 0, fCumProcTime = 0, fBaseLocalPreference = 6 / 5,
       fFractionOfRemoteFiles = 0, fMaxPerfIdx = 100, fgMaxSlaveCnt = 2,
       fgNetworkFasterThanHD = 1, fFileNodes = nodes, fFileStats = files,
       fElements = elems, fUnAllocated = [0 ..< length nodes], fActive = [],
       fSlaveStats = slaves, fPackets = [] \<rparr>"

definition ex_reply :: "int list \<Rightarrow> rat reply" where
  "ex_reply extra = \<lparr>r_latency = 0, r_proctime = 1, r_proccpu = 1, r_more = extra\<rparr>"


text \<open>One file of 100 records on h1 and one worker on h1.\<close>

definition hundred_records :: "rat packetizer" where
  "hundred_records = ex_packetizer [ex_node ''h1'' [0] 1 100] [ex_file 0 0 0] [ex_elem ''h1'' 0 100]
                  [ex_slave ''h1'' (Some 0)] 100"

definition processed_view :: "'f packetizer \<times> packet option list \<Rightarrow> bool \<times> bool \<times> int \<times> int \<times> int list \<times> packet option list" where
  "processed_view x = (fValid (fst x), fStop (fst x), fProcessed (fst x), fTotalEntries (fst x),
                       map sl_fProcessed (fSlaveStats (fst x)), snd x)"

text \<open>
  The state of \<open>hundred_records\<close> after its worker has asked twice: records 0-2
  are processed, the packet of records 3-26 is in flight.
\<close>

definition hundred_in_flight :: "rat packetizer" where
  "hundred_in_flight =
     (ex_packetizer
        [(ex_node ''h1'' [0] 1 100)\<lparr>fUnAllocFileNext := None, fActFiles := [0],
            fActFileNext := Some 0, fRunSlaveCnt := 1, fn_fProcessed := 3\<rparr>]
        [ex_file 0 0 27] [ex_elem ''h1'' 0 100]
        [(ex_slave ''h1'' (Some 0))\<lparr>fCurFile := Some 0,
            fCurElem := Some \<lparr>pBase = 0, pFirst = 3, pNum = 24, pEntryList = None\<rparr>,
            sl_fProcessed := 3, fProcTime := 1, fCurProcessed := 3, fCurProcTime := 1\<rparr>]
        100)
     \<lparr>fProcessed := 3, fCumProcTime := 1,
      fPackets := [\<lparr>pBase = 0, pFirst = 0, pNum = 3, pEntryList = None\<rparr>]\<rparr>"

lemma hundred_in_flight_reached:
  "run exact_ops hundred_records [(0, ex_reply []), (0, ex_reply [])] =
     Some (hundred_in_flight,
           [Some \<lparr>pBase = 0, pFirst = 0, pNum = 3, pEntryList = None\<rparr>,
            Some \<lparr>pBase = 0, pFirst = 3, pNum = 24, pEntryList = None\<rparr>])"
  by code_simp

subsection \<open>The global counter and the workers' counters\<close>

lemma GetNextPacket_counters:
  assumes "GetNextPacket F s sl r = Some (s', po)"
  shows "if fValid s then \<exists>s1. record_reply F s sl r = Some s1 \<and> counters s' = counters s1
         else counters s' = counters s"
proof -
  from GetNextPacket_after_before_file[OF assms] obtain s2 res where
    bf: "before_file F s sl r = Some (s2, res)" and c: "counters s' = counters s2" by blast
  from before_file_effect[OF bf] c show ?thesis by (auto split: if_splits)
qed

lemma sum_list_update_add:
  "i < length xs \<Longrightarrow> sum_list (xs[i := xs ! i + d]) = sum_list xs + (d :: int)"
  by (induction xs arbitrary: i) (auto simp: nth_Cons split: nat.splits)

lemma sum_list_map_update:
  "nth_opt xs i = Some x \<Longrightarrow>
   sum_list ((map f xs)[i := f x + d]) = sum_list (map f xs) + (d :: int)"
  using sum_list_update_add[of i "map f xs" d] by (auto simp: nth_opt_Some)

text \<open>
  C7 (as amended). A call of \<open>GetNextPacket\<close> adds to the global counter of
  processed events the positive part of what it adds to the sum of the workers'
  counters: the two stay equal through every call whose reported increment is not
  negative, and the global counter stays at or above the sum through every call.
\<close>

theorem GetNextPacket_processed_vs_workers:
  assumes "GetNextPacket F s sl r = Some (s', po)"
  shows "fProcessed s' - fProcessed s = max 0 (workers_processed s' - workers_processed s)"
proof (cases "fValid s")
  case False
  with GetNextPacket_counters[OF assms] show ?thesis
    by (simp add: counters_def workers_processed_def)
next
  case True
  with GetNextPacket_counters[OF assms] obtain s1 where
    rr: "record_reply F s sl r = Some s1" and c: "counters s' = counters s1" by auto
  from c have c': "fProcessed s' = fProcessed s1" "workers_processed s' = workers_processed s1"
    by (simp_all add: counters_def workers_processed_def)
  from record_reply_effect[OF rr] obtain slstat where
    sl: "nth_opt (fSlaveStats s) sl = Some slstat" and
    e: "case fCurElem slstat of
          None \<Rightarrow> s1 = s
        | Some elem \<Rightarrow>
            fProcessed s1 = fProcessed s + max 0 (reply_numev slstat elem r) \<and>
            map sl_fProcessed (fSlaveStats s1) =
              (map sl_fProcessed (fSlaveStats s))
                [sl := sl_fProcessed slstat + reply_numev slstat elem r]"
    by (auto split: option.splits)
  show ?thesis
  proof (cases "fCurElem slstat")
    case None
    with e c' show ?thesis by simp
  next
    case (Some elem)
    with e have p: "fProcessed s1 = fProcessed s + max 0 (reply_numev slstat elem r)"
      and w: "workers_processed s1 = workers_processed s + reply_numev slstat elem r"
      by (simp_all add: workers_processed_def sum_list_map_update[OF sl])
    with c' show ?thesis by simp
  qed
qed

definition run_view :: "('f packetizer \<times> packet option list) option \<Rightarrow> (int \<times> int \<times> int) option" where
  "run_view x = map_option (\<lambda>y. (fProcessed (fst y), workers_processed (fst y), fTotalEntries (fst y))) x"

text \<open>
  The claim C7 as stated fails. One file of 100 records, one worker: after two
  packets the worker reports 2 events seen in total where 3 were counted, and the
  global counter stays at 3 while the worker's goes to 2; or it reports 500 events
  seen, and the global counter goes to 500, past the 100 entries of the dataset.
\<close>

theorem processed_differs_from_workers:
  "run_view (run exact_ops hundred_records
      [(0, ex_reply []), (0, ex_reply []), (0, ex_reply [- 1, - 1, 2])]) = Some (3, 2, 100) \<and>
   run_view (run exact_ops hundred_records
      [(0, ex_reply []), (0, ex_reply []), (0, ex_reply [- 1, - 1, 500])]) = Some (500, 500, 100)"
  by code_simp

theorem GetNextPacket_processed_vs_workers_witness:
  "case GetNextPacket exact_ops hundred_in_flight 0 (ex_reply [- 1, - 1, 2]) of
     None \<Rightarrow> False
   | Some (s', po) \<Rightarrow>
       fProcessed s' - fProcessed hundred_in_flight =
         max 0 (workers_processed s' - workers_processed hundred_in_flight)"
proof -
  have "GetNextPacket exact_ops hundred_in_flight 0 (ex_reply [- 1, - 1, 2]) \<noteq> None"
    by code_simp
  then obtain s' po where
    h: "GetNextPacket exact_ops hundred_in_flight 0 (ex_reply [- 1, - 1, 2]) = Some (s', po)"
    by auto
  from GetNextPacket_processed_vs_workers[OF h] h show ?thesis by simp
qed

text \<open>
  C10. The global counter of processed events never decreases across a call of
  \<open>GetNextPacket\<close>. When the reply to a packet in flight holds a (positive) total of
  events seen, the packet's count of events is that total less what the worker had
  processed; the global counter takes its positive part only, the worker's and the
  node's counters take it as it is.
\<close>

theorem GetNextPacket_processed_monotone:
  assumes "GetNextPacket F s sl r = Some (s', po)"
  shows "fProcessed s \<le> fProcessed s' \<and>
    (fValid s \<and> nth_opt (fSlaveStats s) sl = Some slstat \<and> fCurElem slstat = Some elem \<and>
     0 < reply_totev r \<longrightarrow>
       (let numev = reply_totev r - sl_fProcessed slstat in
        fProcessed s' = fProcessed s + (if numev > 0 then numev else 0) \<and>
        map sl_fProcessed (fSlaveStats s') =
          (map sl_fProcessed (fSlaveStats s))[sl := sl_fProcessed slstat + numev] \<and>
        (\<exists>cfile fs n.
           fCurFile slstat = Some cfile \<and> nth_opt (fFileStats s) cfile = Some fs \<and>
           nth_opt (fFileNodes s) (fNode fs) = Some n \<and>
           map fn_fProcessed (fFileNodes s') =
             (map fn_fProcessed (fFileNodes s))[fNode fs := fn_fProcessed n + numev])))"
proof (cases "fValid s")
  case False
  with GetNextPacket_counters[OF assms] show ?thesis by (simp add: counters_def)
next
  case True
  with GetNextPacket_counters[OF assms] obtain s1 where
    rr: "record_reply F s sl r = Some s1" and c: "counters s' = counters s1" by auto
  from c have c': "fProcessed s' = fProcessed s1"
    "map sl_fProcessed (fSlaveStats s') = map sl_fProcessed (fSlaveStats s1)"
    "map fn_fProcessed (fFileNodes s') = map fn_fProcessed (fFileNodes s1)"
    by (simp_all add: counters_def)
  from record_reply_effect[OF rr] obtain st where
    st: "nth_opt (fSlaveStats s) sl = Some st" and
    e: "case fCurElem st of
          None \<Rightarrow> s1 = s
        | Some el \<Rightarrow>
            (\<exists>cfile fs n.
               fCurFile st = Some cfile \<and>
               nth_opt (fFileStats s) cfile = Some fs \<and>
               nth_opt (fFileNodes s) (fNode fs) = Some n \<and>
               fProcessed s1 = fProcessed s + max 0 (reply_numev st el r) \<and>
               map sl_fProcessed (fSlaveStats s1) =
                 (map sl_fProcessed (fSlaveStats s))
                   [sl := sl_fProcessed st + reply_numev st el r] \<and>
               map fn_fProcessed (fFileNodes s1) =
                 (map fn_fProcessed (fFileNodes s))
                   [fNode fs := fn_fProcessed n + reply_numev st el r])"
    by auto
  have mono: "fProcessed s \<le> fProcessed s'"
    using e c' by (cases "fCurElem st") auto
  have "reply_numev slstat elem r = reply_totev r - sl_fProcessed slstat"
    if "0 < reply_totev r" using that by (simp add: reply_numev_def Let_def)
  with e st c' mono show ?thesis
    by (auto simp: Let_def max_def)
qed

theorem GetNextPacket_processed_monotone_witness:
  "case GetNextPacket exact_ops hundred_in_flight 0 (ex_reply [- 1, - 1, 2]) of
     None \<Rightarrow> False
   | Some (s', po) \<Rightarrow>
       fProcessed hundred_in_flight \<le> fProcessed s' \<and> fProcessed s' = 3 \<and>
       map sl_fProcessed (fSlaveStats s') = [2] \<and>
       map fn_fProcessed (fFileNodes s') = [2]"
proof -
  have "GetNextPacket exact_ops hundred_in_flight 0 (ex_reply [- 1, - 1, 2]) \<noteq> None"
    by code_simp
  then obtain s' po where
    h: "GetNextPacket exact_ops hundred_in_flight 0 (ex_reply [- 1, - 1, 2]) = Some (s', po)"
    by auto
  have v: "fValid hundred_in_flight"
    "nth_opt (fSlaveStats hundred_in_flight) 0 = Some (fSlaveStats hundred_in_flight ! 0)"
    "fCurElem (fSlaveStats hundred_in_flight ! 0) =
       Some \<lparr>pBase = 0, pFirst = 3, pNum = 24, pEntryList = None\<rparr>"
    "0 < reply_totev (ex_reply [- 1, - 1, 2])"
    by (simp_all add: hundred_in_flight_def ex_packetizer_def ex_slave_def nth_opt_def
          reply_totev_def ex_reply_def)
  from GetNextPacket_processed_monotone[OF h,
      of "fSlaveStats hundred_in_flight ! 0"
         "\<lparr>pBase = 0, pFirst = 3, pNum = 24, pEntryList = None\<rparr>"] v
  show ?thesis
    by (simp add: h Let_def)
       (auto simp: hundred_in_flight_def ex_packetizer_def ex_slave_def ex_node_def ex_file_def
          nth_opt_def reply_totev_def ex_reply_def)
qed





section \<open>The constructor: the global range\<close>

text \<open>
  Lines 493-627 of the constructor, after \<open>ValidateFiles\<close>: the nodes and their
  files are rebuilt from the elements that the global range \<open>(first, num)\<close> keeps,
  \<open>Reset\<close> sets up the cursors and links the workers to their nodes, and the files
  on nodes without a worker are counted. The data set is the list of its elements
  (indices into \<open>fElements\<close>) and its own selection list. A worker whose node is
  deleted here and whose host has no file afterwards keeps its old \<open>fFileNode\<close>, a
  dangling pointer in the source and a stale index in the model.
\<close>

record TDSet =
  dsElements :: "nat list"
  dsEntryList :: "TObjectList option"
  dsIsTree :: bool

definition list_GetN :: "TObjectList option \<Rightarrow> int" where
  "list_GetN l = (case l of Some (EntryList n) \<Rightarrow> n | Some (EventList n) \<Rightarrow> n | _ \<Rightarrow> 0)"

definition host_of :: "TUrl \<Rightarrow> string" where
  "host_of url =
     (if \<not> urlValid url \<or>
         (take 4 (urlProtocol url) \<noteq> ''root'' \<and> take 4 (urlProtocol url) \<noteq> ''rfio'')
      then ''no-host'' else urlHost url)"

definition FindObject :: "TFileNode list \<Rightarrow> string \<Rightarrow> nat option" where
  "FindObject nodes name =
     (case filter (\<lambda>i. fNodeName (nodes ! i) = name) [0 ..< length nodes] of
        [] \<Rightarrow> None
      | i # _ \<Rightarrow> Some i)"

definition new_TFileNode :: "string \<Rightarrow> TFileNode" where
  "new_TFileNode name =
     \<lparr> fNodeName = name, fFiles = [], fUnAllocFileNext = None, fActFiles = [],
       fActFileNext = None, fMySlaveCnt = 0, fExtSlaveCnt = 0, fRunSlaveCnt = 0,
       fn_fProcessed = 0, fEvents = 0 \<rparr>"

definition TFileNode_Add :: "'f packetizer \<Rightarrow> nat \<Rightarrow> nat \<Rightarrow> 'f packetizer option" where
  "TFileNode_Add s node elem =
     (case nth_opt (fFileNodes s) node of
        None \<Rightarrow> None
      | Some n \<Rightarrow>
     (case nth_opt (fElements s) elem of
        None \<Rightarrow> None
      | Some e \<Rightarrow>
          (let f = \<lparr>fIsDone = False, fNode = node, fElement = elem, fNextEntry = fFirst e\<rparr>;
               fid = length (fFileStats s);
               n1 = n\<lparr>fFiles := fFiles n @ [fid]\<rparr>;
               n2 = (if fUnAllocFileNext n1 = None
                     then n1\<lparr>fUnAllocFileNext := First (fFiles n1)\<rparr> else n1)
           in Some (s\<lparr>fFileStats := fFileStats s @ [f],
                       fFileNodes := (fFileNodes s)[node := n2]\<rparr>))))"

definition add_element :: "'f packetizer \<times> int \<times> int \<Rightarrow> nat \<Rightarrow> ('f packetizer \<times> int \<times> int) option" where
  "add_element st elem =
     (case st of (s, cur, files) \<Rightarrow>
     (case nth_opt (fElements s) elem of
        None \<Rightarrow> None
      | Some e \<Rightarrow>
          (let host = host_of (fName e);
               found = FindObject (fFileNodes s) host;
               node = (case found of Some i \<Rightarrow> i | None \<Rightarrow> length (fFileNodes s));
               s1 = (case found of
                       Some i \<Rightarrow> s
                     | None \<Rightarrow> s\<lparr>fFileNodes := fFileNodes s @ [new_TFileNode host]\<rparr>);
               s2 = s1\<lparr>fTotalEntries := fTotalEntries s1 + fNum e\<rparr>
           in
           case TFileNode_Add s2 node elem of
             None \<Rightarrow> None
           | Some s3 \<Rightarrow>
               (case nth_opt (fFileNodes s3) node of
                  None \<Rightarrow> None
                | Some n \<Rightarrow>
                    Some (s3\<lparr>fFileNodes :=
                               (fFileNodes s3)[node := n\<lparr>fEvents := fEvents n + fNum e\<rparr>]\<rparr>,
                          cur, files + 1)))))"

definition apply_range_elem :: "int \<Rightarrow> int \<Rightarrow> 'f packetizer \<times> int \<times> int \<Rightarrow> nat \<Rightarrow> ('f packetizer \<times> int \<times> int) option" where
  "apply_range_elem first num st elem =
     (case st of (s, cur, files) \<Rightarrow>
     (case nth_opt (fElements s) elem of
        None \<Rightarrow> None
      | Some e \<Rightarrow>
          (let eFirst = fFirst e; eNum = fNum e in
           if fEntryList e = None then
             (if cur + eNum < first then Some (s, cur + eNum, files)
              else if num \<noteq> - 1 \<and> first + num \<le> cur then Some (s, cur + eNum, files)
              else
                (let e1 = (if num \<noteq> - 1 \<and> first + num < cur + eNum
                           then e\<lparr>fNum := first + num - cur\<rparr> else e);
                     e2 = (if cur < first
                           then e1\<lparr>fFirst := eFirst + (first - cur),
                                   fNum := fNum e1 - (first - cur)\<rparr>
                           else e1)
                 in add_element (s\<lparr>fElements := (fElements s)[elem := e2]\<rparr>, cur + eNum, files)
                      elem))
           else if list_GetN (fEntryList e) = 0 then Some (s, cur, files)
           else add_element (s, cur, files) elem)))"

fun apply_range_loop :: "int \<Rightarrow> int \<Rightarrow> 'f packetizer \<times> int \<times> int \<Rightarrow> nat list \<Rightarrow> ('f packetizer \<times> int \<times> int) option" where
  "apply_range_loop first num st [] = Some st"
| "apply_range_loop first num st (e # es) =
     (case apply_range_elem first num st e of
        None \<Rightarrow> None
      | Some st' \<Rightarrow> apply_range_loop first num st' es)"

definition TFileNode_Reset :: "TFileNode \<Rightarrow> TFileNode" where
  "TFileNode_Reset n =
     n\<lparr>fUnAllocFileNext := First (fFiles n), fActFiles := [], fActFileNext := None,
       fExtSlaveCnt := 0, fMySlaveCnt := 0, fRunSlaveCnt := 0\<rparr>"

definition Reset_slave :: "'f packetizer \<Rightarrow> nat \<Rightarrow> 'f packetizer" where
  "Reset_slave s i =
     (let slstat = fSlaveStats s ! i in
      case FindObject (fFileNodes s) (slName (fSlave slstat)) of
        Some fn \<Rightarrow>
          s\<lparr>fSlaveStats := (fSlaveStats s)[i := slstat\<lparr>fFileNode := Some fn, fCurFile := None\<rparr>],
            fFileNodes := (fFileNodes s)
                            [fn := (fFileNodes s ! fn)\<lparr>fMySlaveCnt := fMySlaveCnt (fFileNodes s ! fn) + 1\<rparr>]\<rparr>
      | None \<Rightarrow>
          s\<lparr>fSlaveStats := (fSlaveStats s)[i := slstat\<lparr>fCurFile := None\<rparr>]\<rparr>)"

definition Reset :: "'f packetizer \<Rightarrow> 'f packetizer" where
  "Reset s =
     foldl Reset_slave
       (s\<lparr>fUnAllocated := [0 ..< length (fFileNodes s)], fActive := [],
          fFileNodes := map TFileNode_Reset (fFileNodes s)\<rparr>)
       [0 ..< length (fSlaveStats s)]"

fun count_remote_files :: "TFileNode list \<Rightarrow> int \<times> int \<times> int \<Rightarrow> int \<times> int \<times> int" where
  "count_remote_files [] acc = acc"
| "count_remote_files (fn # fns) (noRemoteFiles, nEventsOnRemLoc, totalNumberOfFiles) =
     count_remote_files fns
       (if GetSlaveCnt fn = 0
        then (noRemoteFiles + int (length (fFiles fn)),
              nEventsOnRemLoc + (fEvents fn - fn_fProcessed fn),
              totalNumberOfFiles + int (length (fFiles fn)))
        else (noRemoteFiles, nEventsOnRemLoc, totalNumberOfFiles + int (length (fFiles fn))))"

definition apply_global_range :: "'f floatops \<Rightarrow> 'f packetizer \<Rightarrow> TDSet \<Rightarrow> int \<Rightarrow> int \<Rightarrow> 'f packetizer option" where
  "apply_global_range F s dset first num =
     (let s0 = s\<lparr>fTotalEntries := 0, fUnAllocated := [], fActive := [],
                 fFileNodes := [], fFileStats := []\<rparr>
      in
      case apply_range_loop first num (s0, 0, 0) (dsElements dset) of
        None \<Rightarrow> None
      | Some (s1, cur, files) \<Rightarrow>
          (let s2 = (case dsEntryList dset of
                       Some (EntryList n) \<Rightarrow> s1\<lparr>fTotalEntries := n\<rparr>
                     | Some (EventList n) \<Rightarrow> s1\<lparr>fTotalEntries := n\<rparr>
                     | _ \<Rightarrow> s1);
               s3 = Reset s2
           in
           case count_remote_files (fFileNodes s3) (0, 0, 0) of
             (noRemoteFiles, nEventsOnRemLoc, totalNumberOfFiles) \<Rightarrow>
               (let s4 = s3\<lparr>fNEventsOnRemLoc := nEventsOnRemLoc\<rparr> in
                if totalNumberOfFiles = 0 then Some (s4\<lparr>fValid := False\<rparr>)
                else Some (s4\<lparr>fFractionOfRemoteFiles :=
                                f_of_int F (noRemoteFiles sdiv totalNumberOfFiles)\<rparr>))))"

definition five_files :: "rat packetizer" where
  "five_files = ex_packetizer [] [] (replicate 5 (ex_elem ''h1'' 0 1000))
                  [ex_slave ''h1'' None] 0"

definition five_dset :: TDSet where
  "five_dset = \<lparr>dsElements = [0, 1, 2, 3, 4], dsEntryList = None, dsIsTree = True\<rparr>"

definition four_files :: "rat packetizer" where
  "four_files = ex_packetizer [] []
                  [ex_elem ''h1'' 0 1000, ex_elem ''h1'' 0 1000,
                   ex_elem ''h2'' 0 1000, ex_elem ''h2'' 0 1000]
                  [ex_slave ''h1'' None] 0"

definition four_dset :: TDSet where
  "four_dset = \<lparr>dsElements = [0, 1, 2, 3], dsEntryList = None, dsIsTree = True\<rparr>"

definition range_view :: "'f packetizer \<Rightarrow> int \<times> (int \<times> int) list \<times> nat list" where
  "range_view s = (fTotalEntries s, map (\<lambda>e. (fFirst e, fNum e)) (fElements s),
                   map fElement (fFileStats s))"

definition remote_view :: "'f packetizer \<Rightarrow> (int \<times> int \<times> int) \<times> 'f" where
  "remote_view s = (count_remote_files (fFileNodes s) (0, 0, 0), fFractionOfRemoteFiles s)"

lemma FindObject_Some: "FindObject nodes name = Some i \<Longrightarrow> i < length nodes"
proof -
  assume a: "FindObject nodes name = Some i"
  then obtain js where "filter (\<lambda>i. fNodeName (nodes ! i) = name) [0 ..< length nodes] = i # js"
    by (auto simp: FindObject_def split: list.splits)
  then have "i \<in> set (filter (\<lambda>i. fNodeName (nodes ! i) = name) [0 ..< length nodes])"
    by simp
  then show ?thesis by simp
qed

lemma add_element_effect:
  assumes "nth_opt (fElements s) elem = Some e"
  shows "\<exists>s' node. add_element (s, cur, files) elem = Some (s', cur, files + 1) \<and>
           fElements s' = fElements s \<and>
           fTotalEntries s' = fTotalEntries s + fNum e \<and>
           fFileStats s' = fFileStats s @
             [\<lparr>fIsDone = False, fNode = node, fElement = elem, fNextEntry = fFirst e\<rparr>]"
proof (cases "FindObject (fFileNodes s) (host_of (fName e))")
  case None
  with assms show ?thesis
    by (simp add: add_element_def TFileNode_Add_def Let_def nth_opt_def nth_append)
next
  case (Some i)
  from FindObject_Some[OF Some] assms Some show ?thesis
    by (simp add: add_element_def TFileNode_Add_def Let_def nth_opt_def)
qed

definition trimmed :: "int \<Rightarrow> int \<Rightarrow> int \<Rightarrow> TDSetElement \<Rightarrow> TDSetElement" where
  "trimmed first num cur e =
     e\<lparr>fFirst := fFirst e + max 0 (first - cur),
       fNum := (if num = - 1 then cur + fNum e else min (cur + fNum e) (first + num))
               - max cur first\<rparr>"

lemma apply_range_elem_dropped:
  assumes "nth_opt (fElements s) elem = Some e" "fEntryList e = None"
    and "cur + fNum e < first \<or> (num \<noteq> - 1 \<and> first + num \<le> cur)"
  shows "apply_range_elem first num (s, cur, files) elem = Some (s, cur + fNum e, files)"
  using assms by (auto simp: apply_range_elem_def Let_def)

lemma apply_range_elem_kept:
  assumes "nth_opt (fElements s) elem = Some e" "fEntryList e = None"
    and "first \<le> cur + fNum e" "num = - 1 \<or> cur < first + num"
  shows "apply_range_elem first num (s, cur, files) elem =
           add_element (s\<lparr>fElements := (fElements s)[elem := trimmed first num cur e]\<rparr>,
                        cur + fNum e, files) elem"
proof -
  have "(if cur < first
         then (if num \<noteq> - 1 \<and> first + num < cur + fNum e
               then e\<lparr>fNum := first + num - cur\<rparr> else e)
              \<lparr>fFirst := fFirst e + (first - cur),
               fNum := fNum (if num \<noteq> - 1 \<and> first + num < cur + fNum e
                             then e\<lparr>fNum := first + num - cur\<rparr> else e) - (first - cur)\<rparr>
         else (if num \<noteq> - 1 \<and> first + num < cur + fNum e
               then e\<lparr>fNum := first + num - cur\<rparr> else e)) = trimmed first num cur e"
    by (cases e) (auto simp: trimmed_def min_def max_def)
  with assms show ?thesis
    by (auto simp: apply_range_elem_def Let_def)
qed

text \<open>
  C3 (as amended). An element without a selection list whose range of the logical
  record stream, \<open>[cur, cur + num)\<close>, ends before \<open>first\<close> or starts at or after
  \<open>first + num\<close> is dropped: no file is made for it and it adds nothing to the
  total. An element whose range reaches into the window is kept, cut to the part
  inside the window. For five files of 1000 records and the window (1500, 2000):
  2000 entries in total; files 0 and 4 are dropped; file 1 starts at record 500 with
  500 records; file 2 is unchanged; file 3 keeps its start and 500 records.
\<close>

theorem apply_range_window:
  assumes "nth_opt (fElements s) elem = Some e" and "fEntryList e = None"
  shows
   "(cur + fNum e < first \<or> (num \<noteq> - 1 \<and> first + num \<le> cur) \<longrightarrow>
       apply_range_elem first num (s, cur, files) elem = Some (s, cur + fNum e, files)) \<and>
    (first < cur + fNum e \<and> (num = - 1 \<or> cur < first + num) \<longrightarrow>
       (\<exists>s' node.
          apply_range_elem first num (s, cur, files) elem = Some (s', cur + fNum e, files + 1) \<and>
          fElements s' = (fElements s)[elem := trimmed first num cur e] \<and>
          fTotalEntries s' = fTotalEntries s + fNum (trimmed first num cur e) \<and>
          fFileStats s' = fFileStats s @
            [\<lparr>fIsDone = False, fNode = node, fElement = elem,
              fNextEntry = fFirst (trimmed first num cur e)\<rparr>])) \<and>
    map_option range_view (apply_global_range exact_ops five_files five_dset 1500 2000) =
      Some (2000, [(0, 1000), (500, 500), (0, 1000), (0, 500), (0, 1000)], [1, 2, 3])"
proof (intro conjI impI)
  assume "cur + fNum e < first \<or> (num \<noteq> - 1 \<and> first + num \<le> cur)"
  with assms show "apply_range_elem first num (s, cur, files) elem = Some (s, cur + fNum e, files)"
    by (rule apply_range_elem_dropped)
next
  assume a: "first < cur + fNum e \<and> (num = - 1 \<or> cur < first + num)"
  let ?s1 = "s\<lparr>fElements := (fElements s)[elem := trimmed first num cur e]\<rparr>"
  from assms(1) have l: "nth_opt (fElements ?s1) elem = Some (trimmed first num cur e)"
    by (auto simp: nth_opt_def split: if_splits)
  from a assms have eq: "apply_range_elem first num (s, cur, files) elem =
      add_element (?s1, cur + fNum e, files) elem"
    by (intro apply_range_elem_kept) auto
  from add_element_effect[OF l, of "cur + fNum e" files] eq
  show "\<exists>s' node.
          apply_range_elem first num (s, cur, files) elem = Some (s', cur + fNum e, files + 1) \<and>
          fElements s' = (fElements s)[elem := trimmed first num cur e] \<and>
          fTotalEntries s' = fTotalEntries s + fNum (trimmed first num cur e) \<and>
          fFileStats s' = fFileStats s @
            [\<lparr>fIsDone = False, fNode = node, fElement = elem,
              fNextEntry = fFirst (trimmed first num cur e)\<rparr>]"
    by auto
next
  show "map_option range_view (apply_global_range exact_ops five_files five_dset 1500 2000) =
      Some (2000, [(0, 1000), (500, 500), (0, 1000), (0, 500), (0, 1000)], [1, 2, 3])"
    by code_simp
qed

theorem apply_range_window_witness:
  "apply_range_elem 1500 2000 (five_files, 0, 0) 0 = Some (five_files, 1000, 0) \<and>
   (\<exists>s' node.
      apply_range_elem 1500 2000 (five_files, 1000, 0) 1 = Some (s', 2000, 1) \<and>
      fElements s' = (fElements five_files)[1 := trimmed 1500 2000 1000 (ex_elem ''h1'' 0 1000)] \<and>
      fTotalEntries s' = 500 \<and>
      fFileStats s' = [\<lparr>fIsDone = False, fNode = node, fElement = 1, fNextEntry = 500\<rparr>])"
proof -
  have l0: "nth_opt (fElements five_files) 0 = Some (ex_elem ''h1'' 0 1000)"
    and l1: "nth_opt (fElements five_files) 1 = Some (ex_elem ''h1'' 0 1000)"
    and n: "fEntryList (ex_elem ''h1'' 0 1000) = None"
    by (simp_all add: five_files_def ex_packetizer_def nth_opt_def ex_elem_def
          numeral_eq_Suc)
  from apply_range_window[OF l0 n, of 0 1500 2000 0]
       apply_range_window[OF l1 n, of 1000 1500 2000 0]
  show ?thesis
    by (simp add: ex_elem_def trimmed_def five_files_def ex_packetizer_def)
qed

text \<open>
  The claim C3 as stated has files 2 and 3 unchanged; file 3 holds records
  3000-3999 of the stream, the window ends at 3500, and the element comes out with
  500 records.
\<close>

definition element_range :: "nat \<Rightarrow> 'f packetizer \<Rightarrow> int \<times> int" where
  "element_range i s = (fFirst (fElements s ! i), fNum (fElements s ! i))"

theorem window_trims_file_3:
  "map_option (element_range 3) (apply_global_range exact_ops five_files five_dset 1500 2000) =
     Some (0, 500)"
  by code_simp

text \<open>
  C9. The claim: the recorded fraction of remote-only files is the exact ratio of
  their number to the number of all files. The source divides two \<open>Int_t\<close> values
  before the result becomes a \<open>Float_t\<close>: with two files on h1, which has a worker,
  and two on h2, which has none, 2 of 4 files are remote-only and the recorded
  fraction is 0.
\<close>

theorem fraction_of_remote_files_truncated:
  "map_option remote_view (apply_global_range exact_ops four_files four_dset 0 (- 1)) =
     Some ((2, 2000, 4), 0)"
  by code_simp

end
